theory Spec2Isabelle
  imports Complex_Main "HOL-Library.Sublist" "HOL-Library.Char_ord" "HOL-Library.List_Lexorder"
begin

section \<open>JavaScript values used by the scoring code\<close>

text \<open>
  A JavaScript \<open>number\<close> that the scoring code compares against thresholds is either a real
  number or \<open>NaN\<close>; every comparison with \<open>NaN\<close> is false. \<open>Math.round\<close> rounds half up.
\<close>

datatype jsnum = Num real | NaN

fun js_ge :: "jsnum \<Rightarrow> real \<Rightarrow> bool" where
  "js_ge (Num x) k = (k \<le> x)"
| "js_ge NaN k = False"

definition Math_round :: "real \<Rightarrow> int" where
  "Math_round x = \<lfloor>x + 1 / 2\<rfloor>"

fun js_round :: "jsnum \<Rightarrow> jsnum" where
  "js_round (Num x) = Num (of_int (Math_round x))"
| "js_round NaN = NaN"

section \<open>JavaScript strings\<close>

text \<open>
  A string is a list of code units. The model covers the code units below 256 (the type
  \<open>char\<close>): ASCII and the Latin-1 letters of the Spanish messages. On these,
  \<open>toLowerCase\<close> maps \<open>A..Z\<close> and the accented capitals \<open>0xC0..0xDE\<close> (without the
  multiplication sign \<open>0xD7\<close>) to the letter 32 places further and leaves the rest alone.
\<close>

definition lower_char :: "char \<Rightarrow> char" where
  "lower_char c =
     (if (CHR ''A'' \<le> c \<and> c \<le> CHR ''Z'') \<or> (CHR 0xC0 \<le> c \<and> c \<le> CHR 0xDE \<and> c \<noteq> CHR 0xD7)
      then char_of (of_char c + (32::nat)) else c)"

definition toLowerCase :: "string \<Rightarrow> string" where
  "toLowerCase s = map lower_char s"

text \<open>\<open>s.startsWith(p)\<close> and \<open>s.includes(needle)\<close>.\<close>

definition startsWith :: "string \<Rightarrow> string \<Rightarrow> bool" where
  "startsWith s p = prefix p s"

fun js_includes :: "string \<Rightarrow> string \<Rightarrow> bool" where
  "js_includes [] needle = (needle = [])"
| "js_includes (c # cs) needle = (prefix needle (c # cs) \<or> js_includes cs needle)"

text \<open>Truthiness of an optional string: \<open>undefined\<close> and the empty string are falsy.\<close>

definition truthy :: "string option \<Rightarrow> bool" where
  "truthy v = (case v of None \<Rightarrow> False | Some s \<Rightarrow> s \<noteq> [])"

text \<open>
  Reading a property \<open>obj[key]\<close> of an object literal: an own property, a member inherited
  from \<open>Object.prototype\<close> (a function or an object, truthy and not a number), or
  \<open>undefined\<close>.
\<close>

datatype 'a js_prop = Own 'a | Inherited | Undefined

definition Object_prototype_keys :: "string list" where
  "Object_prototype_keys =
     [''constructor'', ''__proto__'', ''hasOwnProperty'', ''isPrototypeOf'',
      ''propertyIsEnumerable'', ''toLocaleString'', ''toString'', ''valueOf'',
      ''__defineGetter__'', ''__defineSetter__'', ''__lookupGetter__'', ''__lookupSetter__'']"

definition js_get :: "(string \<times> 'a) list \<Rightarrow> string \<Rightarrow> 'a js_prop" where
  "js_get obj k =
     (case map_of obj k of
        Some v \<Rightarrow> Own v
      | None \<Rightarrow> if k \<in> set Object_prototype_keys then Inherited else Undefined)"

section \<open>Regular expressions\<close>

text \<open>
  The regular expressions of the source use literal characters, character classes,
  sequence, alternation and the greedy quantifiers \<open>*\<close>, \<open>+\<close> and \<open>?\<close>. \<open>run r s\<close> is
  the backtracking matcher started at the head of \<open>s\<close>: it lists the remainders of \<open>s\<close>
  after each way of matching \<open>r\<close>, in the order in which backtracking tries them, so that
  the head of the list is the match JavaScript reports. A starred iteration that consumes
  nothing is rejected, as in JavaScript.
\<close>

datatype rx =
    Chr "char \<Rightarrow> bool"
  | Eps
  | Seq rx rx
  | Alt rx rx
  | Star rx

fun run :: "rx \<Rightarrow> string \<Rightarrow> string list" where
  "run (Chr p) s = (case s of [] \<Rightarrow> [] | c # cs \<Rightarrow> if p c then [cs] else [])"
| "run Eps s = [s]"
| "run (Seq a b) s = concat (map (run b) (run a s))"
| "run (Alt a b) s = run a s @ run b s"
| "run (Star a) s =
     concat (map (\<lambda>t. if length t < length s then run (Star a) t else []) (run a s)) @ [s]"

declare run.simps(5) [simp del]

definition star_rest :: "rx \<Rightarrow> string \<Rightarrow> string list \<Rightarrow> string list" where
  "star_rest a s ts = concat (map (\<lambda>t. if length t < length s then run (Star a) t else []) ts)"

text \<open>
  \<open>search_from r i s\<close>: the leftmost match in \<open>s\<close>, where \<open>s\<close> is the part of the subject
  that starts at index \<open>i\<close>; the result is the start and end index of the match.
\<close>

fun search_from :: "rx \<Rightarrow> nat \<Rightarrow> string \<Rightarrow> (nat \<times> nat) option" where
  "search_from r i [] = (case run r [] of t # _ \<Rightarrow> Some (i, i) | [] \<Rightarrow> None)"
| "search_from r i (c # cs) =
     (case run r (c # cs) of
        t # _ \<Rightarrow> Some (i, i + (length (c # cs) - length t))
      | [] \<Rightarrow> search_from r (Suc i) cs)"

text \<open>\<open>regex.test(s)\<close> and \<open>s.match(regex)[0]\<close> for a regex without the \<open>g\<close> flag.\<close>

definition regex_test :: "rx \<Rightarrow> string \<Rightarrow> bool" where
  "regex_test r s = (search_from r 0 s \<noteq> None)"

definition js_match :: "rx \<Rightarrow> string \<Rightarrow> string option" where
  "js_match r s =
     (case search_from r 0 s of
        None \<Rightarrow> None
      | Some (st, en) \<Rightarrow> Some (take (en - st) (drop st s)))"

text \<open>
  \<open>regex.test(s)\<close> for a regex with the \<open>g\<close> flag reads and writes \<open>lastIndex\<close>: the
  search starts there, a match moves it to the end of the match, a failure resets it to 0.
  The result is the answer and the new \<open>lastIndex\<close>.
\<close>

definition global_test :: "rx \<Rightarrow> nat \<Rightarrow> string \<Rightarrow> bool \<times> nat" where
  "global_test r lastIndex s =
     (if lastIndex > length s then (False, 0)
      else case search_from r lastIndex (drop lastIndex s) of
             None \<Rightarrow> (False, 0)
           | Some (st, en) \<Rightarrow> (True, en))"

text \<open>
  Atoms. Under the \<open>i\<close> flag two code units match when their canonical (upper case) forms
  agree. A code unit whose upper case form is more than one unit or lies outside the
  one-byte range is its own canonical form. \<open>\s\<close> is the white space class, \<open>\d\<close> the
  digits.
\<close>

definition canonicalize :: "char \<Rightarrow> char" where
  "canonicalize c =
     (if (CHR ''a'' \<le> c \<and> c \<le> CHR ''z'') \<or> (CHR 0xE0 \<le> c \<and> c \<le> CHR 0xFE \<and> c \<noteq> CHR 0xF7)
      then char_of (of_char c - (32::nat)) else c)"

definition is_space :: "char \<Rightarrow> bool" where
  "is_space c \<longleftrightarrow>
     c \<in> set [CHR 0x09, CHR 0x0A, CHR 0x0B, CHR 0x0C, CHR 0x0D, CHR 0x20, CHR 0xA0]"

definition is_digit :: "char \<Rightarrow> bool" where
  "is_digit c \<longleftrightarrow> CHR ''0'' \<le> c \<and> c \<le> CHR ''9''"

definition ci :: "char \<Rightarrow> rx" where
  "ci c = Chr (\<lambda>x. canonicalize x = canonicalize c)"

definition ch :: "char \<Rightarrow> rx" where
  "ch c = Chr (\<lambda>x. x = c)"

definition not_ch :: "char \<Rightarrow> rx" where
  "not_ch c = Chr (\<lambda>x. x \<noteq> c)"

definition one_of :: "char list \<Rightarrow> rx" where
  "one_of cs = Chr (\<lambda>x. x \<in> set cs)"

definition ws :: rx where
  "ws = Chr is_space"

definition digit :: rx where
  "digit = Chr is_digit"

definition seqs :: "rx list \<Rightarrow> rx" where
  "seqs rs = foldr Seq rs Eps"

fun alts :: "rx list \<Rightarrow> rx" where
  "alts [] = Chr (\<lambda>_. False)"
| "alts [r] = r"
| "alts (r # rs) = Alt r (alts rs)"

definition opt :: "rx \<Rightarrow> rx" where
  "opt r = Alt r Eps"

definition rx_plus :: "rx \<Rightarrow> rx" where
  "rx_plus r = Seq r (Star r)"

definition lit :: "string \<Rightarrow> rx" where
  "lit s = seqs (map ch s)"

definition lit_i :: "string \<Rightarrow> rx" where
  "lit_i s = seqs (map ci s)"

definition one_of_or_space :: "char list \<Rightarrow> rx" where
  "one_of_or_space cs = Chr (\<lambda>x. x \<in> set cs \<or> is_space x)"

definition range_class :: "char \<Rightarrow> char \<Rightarrow> char list \<Rightarrow> rx" where
  "range_class lo hi cs = Chr (\<lambda>x. (lo \<le> x \<and> x \<le> hi) \<or> x \<in> set cs \<or> is_space x)"

text \<open>
  \<open>s.matchAll(regex)\<close> (and \<open>s.match(regex)\<close> with the \<open>g\<close> flag): the successive matches
  from left to right. \<open>walk f i s\<close> goes through \<open>s\<close>, the part of the subject that starts
  at index \<open>i\<close>, where \<open>f\<close> gives the length of the match that starts at the head, with a
  payload. The search goes on after the match, and one place further after an empty match.
\<close>

fun walk :: "(string \<Rightarrow> (nat \<times> 'a) option) \<Rightarrow> nat \<Rightarrow> string \<Rightarrow> (nat \<times> nat \<times> 'a) list" where
  "walk f i [] = (case f [] of None \<Rightarrow> [] | Some (len, a) \<Rightarrow> [(i, i + len, a)])"
| "walk f i (c # cs) =
     (case f (c # cs) of
        None \<Rightarrow> walk f (Suc i) cs
      | Some (len, a) \<Rightarrow>
          (i, i + len, a)
          # (if len = 0 then walk f (Suc i) cs else walk f (i + len) (drop len (c # cs))))"

definition match_here :: "rx \<Rightarrow> string \<Rightarrow> (nat \<times> unit) option" where
  "match_here r s = (case run r s of [] \<Rightarrow> None | t # _ \<Rightarrow> Some (length s - length t, ()))"

definition all_matches :: "rx \<Rightarrow> string \<Rightarrow> string list" where
  "all_matches r s =
     map (\<lambda>m. case m of (st, en, _) \<Rightarrow> take (en - st) (drop st s)) (walk (match_here r) 0 s)"

text \<open>
  A regex \<open>P(G)\<close> whose only group is its tail: the first way of matching, in backtracking
  order, gives the length of the match and the text of the group.
\<close>

definition match_here_group :: "rx \<Rightarrow> rx \<Rightarrow> string \<Rightarrow> (nat \<times> string) option" where
  "match_here_group P G s =
     (case concat (map (\<lambda>m. map (\<lambda>t. (m, t)) (run G m)) (run P s)) of
        [] \<Rightarrow> None
      | (m, t) # _ \<Rightarrow> Some (length s - length t, take (length m - length t) m))"

definition all_groups :: "rx \<Rightarrow> rx \<Rightarrow> string \<Rightarrow> string list" where
  "all_groups P G s = map (\<lambda>m. case m of (st, en, g) \<Rightarrow> g) (walk (match_here_group P G) 0 s)"

section \<open>security\_integrator.ts: RealisticSecurityCalculator\<close>

text \<open>\<open>interface VulnerabilityData\<close>: the per-severity counts of findings.\<close>

record VulnerabilityData =
  critical :: int
  high :: int
  medium :: int
  low :: int

text \<open>\<open>VULNERABILITY_PENALTIES\<close>\<close>

definition PENALTY_CRITICAL :: int where "PENALTY_CRITICAL = 25"
definition PENALTY_HIGH :: int where "PENALTY_HIGH = 12"
definition PENALTY_MEDIUM :: int where "PENALTY_MEDIUM = 5"
definition PENALTY_LOW :: int where "PENALTY_LOW = 2"

text \<open>
  \<open>evaluateVulnerabilitiesRealistically\<close>: each of the four \<open>if (count > 0)\<close> statements adds
  to the running \<open>totalPenalty\<close>; the result is \<open>-Math.round(Math.min(totalPenalty, 30))\<close>.
\<close>

definition evaluateVulnerabilitiesRealistically :: "VulnerabilityData \<Rightarrow> int" where
  "evaluateVulnerabilitiesRealistically vulns =
     (let totalPenalty = (0::int);
          totalPenalty = (if critical vulns > 0
                          then totalPenalty + PENALTY_CRITICAL * min (critical vulns) 3
                          else totalPenalty);
          totalPenalty = (if high vulns > 0
                          then totalPenalty + PENALTY_HIGH * min (high vulns) 5
                          else totalPenalty);
          totalPenalty = (if medium vulns > 0
                          then totalPenalty + PENALTY_MEDIUM * min (medium vulns) 8
                          else totalPenalty);
          totalPenalty = (if low vulns > 0
                          then totalPenalty + PENALTY_LOW * min (low vulns) 10
                          else totalPenalty)
      in - Math_round (of_int (min totalPenalty 30)))"

text \<open>\<open>calculateGrade\<close>\<close>

definition calculateGrade :: "jsnum \<Rightarrow> string" where
  "calculateGrade score =
     (if js_ge score 95 then ''A+''
      else if js_ge score 90 then ''A''
      else if js_ge score 85 then ''A-''
      else if js_ge score 80 then ''B+''
      else if js_ge score 75 then ''B''
      else if js_ge score 70 then ''B-''
      else if js_ge score 65 then ''C+''
      else if js_ge score 60 then ''C''
      else if js_ge score 55 then ''C-''
      else if js_ge score 50 then ''D''
      else ''F'')"

text \<open>
  \<open>calculateRiskLevel\<close> returns one of the strings \<open>'Bajo'\<close>, \<open>'Medio'\<close>, \<open>'Alto'\<close>,
  \<open>'Critico'\<close> with an acute accent on the first i (the code unit \<open>0xED\<close>).
\<close>

definition Bajo :: string where "Bajo = ''Bajo''"
definition Medio :: string where "Medio = ''Medio''"
definition Alto :: string where "Alto = ''Alto''"
definition Critico :: string where "Critico = ''Cr'' @ [CHR 0xED] @ ''tico''"

definition calculateRiskLevel :: "jsnum \<Rightarrow> VulnerabilityData \<Rightarrow> string" where
  "calculateRiskLevel score vulnerabilities =
     (let hasCriticalVulns = (critical vulnerabilities > 0);
          hasHighVulns = (high vulnerabilities > 0)
      in if js_ge score 85 \<and> \<not> hasCriticalVulns \<and> high vulnerabilities \<le> 1 then Bajo
         else if js_ge score 70 \<and> \<not> hasCriticalVulns then Medio
         else if js_ge score 50 \<or> high vulnerabilities > 2 then Alto
         else Critico)"

text \<open>
  \<open>interface SecurityHeaders\<close>: header name to value. \<open>interface SiteContext\<close>.
\<close>

type_synonym SecurityHeaders = "string \<rightharpoonup> string"

datatype context_type =
  Static | Dynamic | Ecommerce | Enterprise | Government | Api | SinglePageApp | Blog | Portfolio

datatype audience =
  General | Business | Financial | GovernmentAudience | EnterpriseAudience | Developer

record SiteContext =
  type :: context_type
  hasUserGeneratedContent :: bool
  handlesFinancialData :: bool
  hasLoginSystem :: bool
  allowsFileUploads :: bool
  usesExternalAPIs :: bool
  hasThirdPartyIntegrations :: bool
  isPublicFacing :: bool
  usesHTTPS :: bool
  technologyStack :: "string list"
  targetAudience :: audience

text \<open>\<open>SITE_BASELINES\<close> and \<open>HEADER_WEIGHTS\<close> (name, weight, criticality), in source order.\<close>

definition SITE_BASELINES :: "(string \<times> int) list" where
  "SITE_BASELINES =
     [(''ecommerce-standard'', 75),
      (''ecommerce-premium'', 85),
      (''enterprise-smb'', 70),
      (''enterprise-corporate'', 80),
      (''portfolio-professional'', 65),
      (''saas-platform'', 78),
      (''government'', 90),
      (''financial'', 95),
      (''healthcare'', 85),
      (''education'', 75),
      (''media-publisher'', 70),
      (''blog-influencer'', 60),
      (''landing-page-conversion'', 65),
      (''DEFAULT'', 80)]"

definition SITE_BASELINES_DEFAULT :: int where
  "SITE_BASELINES_DEFAULT = 80"

definition HEADER_WEIGHTS :: "(string \<times> real \<times> string) list" where
  "HEADER_WEIGHTS =
     [(''content-security-policy'', 25, ''CRITICAL''),
      (''strict-transport-security'', 20, ''CRITICAL''),
      (''x-frame-options'', 15, ''HIGH''),
      (''x-content-type-options'', 12, ''HIGH''),
      (''referrer-policy'', 8, ''MEDIUM''),
      (''permissions-policy'', 6, ''MEDIUM''),
      (''x-xss-protection'', 3, ''LOW'')]"

text \<open>\<open>evaluateCSPQuality\<close>, \<open>evaluateHSTSQuality\<close>, \<open>evaluateHeaderQuality\<close>\<close>

definition evaluateCSPQuality :: "string \<Rightarrow> real" where
  "evaluateCSPQuality cspValue =
     (let goodPractices = [''default-src'', ''script-src'', ''style-src''];
          hasNonces = (js_includes cspValue ''nonce-'' \<or> js_includes cspValue ''sha256-'');
          hasUnsafeInline = js_includes cspValue (CHR 0x27 # ''unsafe-inline'' @ [CHR 0x27]);
          score = 0.5;
          score = fold (\<lambda>directive sc. if js_includes cspValue directive then sc + 0.2 else sc)
                       goodPractices score;
          score = (if \<not> hasUnsafeInline then score + 0.3 else score);
          score = (if hasNonces then score + 0.2 else score)
      in min 1.0 score)"

definition evaluateHSTSQuality :: "string \<Rightarrow> real" where
  "evaluateHSTSQuality hstsValue =
     (let hasMaxAge = js_includes hstsValue ''max-age='';
          hasIncludeSubDomains = js_includes hstsValue ''includeSubDomains'';
          hasPreload = js_includes hstsValue ''preload'';
          score = 0.3;
          score = (if hasMaxAge then score + 0.3 else score);
          score = (if hasIncludeSubDomains then score + 0.2 else score);
          score = (if hasPreload then score + 0.2 else score)
      in min 1.0 score)"

definition evaluateHeaderQuality :: "string \<Rightarrow> string \<Rightarrow> real" where
  "evaluateHeaderQuality headerName val =
     (if headerName = ''content-security-policy'' then evaluateCSPQuality val
      else if headerName = ''strict-transport-security'' then evaluateHSTSQuality val
      else if headerName = ''x-frame-options''
           then (if js_includes val ''DENY'' \<or> js_includes val ''SAMEORIGIN'' then 1.0 else 0.7)
      else (if val \<noteq> [] then 1.0 else 0.0))"

text \<open>
  \<open>calculateMissingHeaderPenalty\<close>: the three \<open>contextModifiers\<close> tables; the object
  spread \<open>{...a, ...b}\<close> is the map \<open>a ++ b\<close>.
\<close>

definition contextModifiers_static_site :: "(string \<times> real) list" where
  "contextModifiers_static_site =
     [(''content-security-policy'', 0.3),
      (''referrer-policy'', 0.5),
      (''permissions-policy'', 0.4),
      (''x-xss-protection'', 0.1)]"

definition contextModifiers_api_only :: "(string \<times> real) list" where
  "contextModifiers_api_only =
     [(''content-security-policy'', 0.0),
      (''x-frame-options'', 0.0),
      (''referrer-policy'', 0.2)]"

definition contextModifiers_blog_portfolio :: "(string \<times> real) list" where
  "contextModifiers_blog_portfolio =
     [(''content-security-policy'', 0.4),
      (''x-frame-options'', 0.3),
      (''referrer-policy'', 1.1)]"

definition calculateMissingHeaderPenalty ::
  "string \<Rightarrow> string \<Rightarrow> SiteContext option \<Rightarrow> real" where
  "calculateMissingHeaderPenalty headerName criticality context =
     (let penalty = 1.0
      in case context of
           None \<Rightarrow> penalty
         | Some ctx \<Rightarrow>
             (let modifiers = map_of contextModifiers_static_site;
                  modifiers = (if type ctx = Api \<or> type ctx = Enterprise
                               then modifiers ++ map_of contextModifiers_api_only
                               else modifiers);
                  modifiers = (if type ctx = Blog \<or> type ctx = Portfolio
                               then modifiers ++ map_of contextModifiers_blog_portfolio
                               else modifiers)
              in case modifiers headerName of
                   Some modifier \<Rightarrow> penalty * modifier
                 | None \<Rightarrow> penalty))"

text \<open>
  \<open>evaluateHeadersRealistically\<close>: the loop over \<open>HEADER_WEIGHTS\<close> carries
  \<open>(presentPoints, missingPoints)\<close>; a header counts as present when its value is truthy.
\<close>

record HeadersScore =
  present :: int
  missing :: int
  score :: int

definition header_step ::
  "SecurityHeaders \<Rightarrow> SiteContext option \<Rightarrow> string \<times> real \<times> string \<Rightarrow> real \<times> real \<Rightarrow> real \<times> real"
  where
  "header_step headers context entry acc =
     (case entry of (headerName, weight, criticality) \<Rightarrow>
      case acc of (presentPoints, missingPoints) \<Rightarrow>
        (let headerValue = (if truthy (headers headerName) then headers headerName
                            else headers (toLowerCase headerName))
         in if truthy headerValue
            then (presentPoints + weight * evaluateHeaderQuality headerName (the headerValue),
                  missingPoints)
            else (presentPoints,
                  missingPoints
                    + weight * calculateMissingHeaderPenalty headerName criticality context)))"

definition evaluateHeadersRealistically :: "SecurityHeaders \<Rightarrow> SiteContext option \<Rightarrow> HeadersScore"
  where
  "evaluateHeadersRealistically headers context =
     (case fold (header_step headers context) HEADER_WEIGHTS (0, 0) of
        (presentPoints, missingPoints) \<Rightarrow>
          \<lparr>present = Math_round presentPoints,
           missing = Math_round missingPoints,
           score = Math_round (presentPoints + missingPoints)\<rparr>)"

text \<open>\<open>calculateContextualBonus\<close>\<close>

definition calculateContextualBonus ::
  "SecurityHeaders \<Rightarrow> VulnerabilityData \<Rightarrow> SiteContext option \<Rightarrow> int" where
  "calculateContextualBonus headers vulnerabilities context =
     (let bonus = (0::int);
          bonus = (case headers ''strict-transport-security'' of
                     Some h \<Rightarrow> if js_includes h ''max-age'' then bonus + 5 else bonus
                   | None \<Rightarrow> bonus);
          totalVulns = critical vulnerabilities + high vulnerabilities
                       + medium vulnerabilities + low vulnerabilities;
          bonus = (if totalVulns = 0 then bonus + 3
                   else if totalVulns \<le> 2 then bonus + 1 else bonus)
      in case context of
           None \<Rightarrow> bonus
         | Some ctx \<Rightarrow>
             (let bonus = (if (type ctx = Blog \<or> type ctx = Portfolio)
                              \<and> \<not> hasUserGeneratedContent ctx
                           then bonus + 2 else bonus);
                  bonus = (if \<not> handlesFinancialData ctx \<and> \<not> hasLoginSystem ctx
                              \<and> \<not> allowsFileUploads ctx
                           then bonus + 3 else bonus)
              in bonus))"

text \<open>
  \<open>calculateRealisticScore\<close>. The parameter \<open>siteType\<close> defaults to \<open>'DEFAULT'\<close> when it
  is not passed. The baseline is \<open>SITE_BASELINES[siteType] || SITE_BASELINES.DEFAULT\<close>: an
  own entry that is not zero, the default for \<open>undefined\<close>, and the inherited member itself
  for a name of \<open>Object.prototype\<close>. With a numeric baseline the sum is clamped to
  \<open>[0, 100]\<close>; with an inherited member \<open>+\<close> concatenates strings and \<open>Math.min\<close> yields
  \<open>NaN\<close>.
\<close>

datatype baseline_value = Points int | PrototypeMember

record VulnerabilityDetails =
  vd_critical :: int
  vd_high :: int
  vd_medium :: int
  vd_low :: int
  vd_score :: int

record ScoreDetails =
  baseline :: baseline_value
  headers :: HeadersScore
  vulnerabilities :: VulnerabilityDetails
  bonus :: int
  total :: jsnum

record SecurityScore =
  overall :: jsnum
  grade :: string
  riskLevel :: string
  details :: ScoreDetails

definition calculateRealisticScore ::
  "SecurityHeaders \<Rightarrow> VulnerabilityData \<Rightarrow> string option \<Rightarrow> SiteContext option \<Rightarrow> SecurityScore"
  where
  "calculateRealisticScore hdrs vulns siteTypeArg context =
     (let siteType = (case siteTypeArg of None \<Rightarrow> ''DEFAULT'' | Some t \<Rightarrow> t);
          baseline = (case js_get SITE_BASELINES siteType of
                        Own b \<Rightarrow> if b \<noteq> 0 then Points b else Points SITE_BASELINES_DEFAULT
                      | Undefined \<Rightarrow> Points SITE_BASELINES_DEFAULT
                      | Inherited \<Rightarrow> PrototypeMember);
          headersScore = evaluateHeadersRealistically hdrs context;
          vulnScore = evaluateVulnerabilitiesRealistically vulns;
          bonusScore = calculateContextualBonus hdrs vulns context;
          total = (case baseline of
                     Points b \<Rightarrow>
                       Num (max 0 (min 100 (of_int (b + score headersScore + vulnScore + bonusScore))))
                   | PrototypeMember \<Rightarrow> NaN);
          grade = calculateGrade total;
          riskLevel = calculateRiskLevel total vulns
      in \<lparr>overall = js_round total,
          grade = grade,
          riskLevel = riskLevel,
          details = \<lparr>baseline = baseline,
                     headers = headersScore,
                     vulnerabilities = \<lparr>vd_critical = critical vulns, vd_high = high vulns,
                                        vd_medium = medium vulns, vd_low = low vulns,
                                        vd_score = vulnScore\<rparr>,
                     bonus = bonusScore,
                     total = total\<rparr>\<rparr>)"

text \<open>
  \<open>interface VulnerableTechnology\<close> (index.tsx): a finding. The severity is one of the four
  string literals.
\<close>

datatype severity = Low | Medium | High | Critical

record VulnerableTechnology =
  name :: string
  version :: string
  vulnerability :: string
  severity :: severity
  lineNumbers :: "nat list option"
  recommendation :: "string option"

text \<open>\<open>SecurityIntegrationUtils.filterFalsePositives\<close>\<close>

definition filterFalsePositives :: "VulnerableTechnology list \<Rightarrow> VulnerableTechnology list" where
  "filterFalsePositives vulns =
     filter (\<lambda>vuln.
       let isGoogleSafe =
             (js_includes (toLowerCase (vulnerability vuln)) ''google'' \<or>
              js_includes (toLowerCase (vulnerability vuln)) ''gtm'' \<or>
              js_includes (toLowerCase (vulnerability vuln)) ''tag manager'' \<or>
              js_includes (toLowerCase (vulnerability vuln)) ''maps api'' \<or>
              js_includes (toLowerCase (vulnerability vuln)) ''analytics'' \<or>
              js_includes (toLowerCase (vulnerability vuln)) ''firebase'' \<or>
              js_includes (toLowerCase (vulnerability vuln)) ''gapi'');
           isDevSafe =
             (js_includes (toLowerCase (vulnerability vuln)) ''console.log'' \<or>
              js_includes (toLowerCase (vulnerability vuln)) ''debug mode'' \<or>
              js_includes (toLowerCase (vulnerability vuln)) ''development'');
           isSafeInnerHTML =
             (js_includes (toLowerCase (vulnerability vuln)) ''innerhtml'' \<and>
              (js_includes (toLowerCase (vulnerability vuln)) ''hardcoded'' \<or>
               js_includes (toLowerCase (vulnerability vuln)) ''safe'' \<or>
               js_includes (toLowerCase (vulnerability vuln)) ''sanitized''))
       in \<not> isGoogleSafe \<and> \<not> isDevSafe \<and> \<not> isSafeInnerHTML) vulns"

text \<open>\<open>SecurityIntegrationUtils.normalizeVulnerabilities\<close>: the per-severity tallies.\<close>

definition normalizeVulnerabilities :: "VulnerableTechnology list \<Rightarrow> VulnerabilityData" where
  "normalizeVulnerabilities vulns =
     fold (\<lambda>vuln normalized.
             case severity vuln of
               Critical \<Rightarrow> normalized\<lparr>critical := critical normalized + 1\<rparr>
             | High \<Rightarrow> normalized\<lparr>high := high normalized + 1\<rparr>
             | Medium \<Rightarrow> normalized\<lparr>medium := medium normalized + 1\<rparr>
             | Low \<Rightarrow> normalized\<lparr>low := low normalized + 1\<rparr>)
          vulns \<lparr>critical = 0, high = 0, medium = 0, low = 0\<rparr>"

section \<open>baseline\_scoring.ts: BaselineScorer\<close>

text \<open>
  The configuration records. A \<open>BaselineConfig\<close> also carries a description and a list of
  optimization targets; \<open>analyzeSite\<close> reads neither, and they are left out.
\<close>

datatype quality = Basic | Good | Excellent

record ExpectedHeader =
  eh_name :: string
  expected :: bool
  quality :: quality
  weight :: real

datatype IndustryType =
  Retail | Finance | GovernmentIndustry | Healthcare | Education | Technology | Media
  | Manufacturing | Services | Nonprofit

datatype RiskProfile = Conservative | Moderate | Aggressive

record BaselineConfig =
  bc_type :: string
  baseScore :: real
  expectedHeaders :: "ExpectedHeader list"
  typicalVulnerabilities :: int
  industry :: IndustryType
  riskProfile :: RiskProfile

datatype gap_priority = PriorityLow | PriorityMedium | PriorityHigh | PriorityCritical

record ScoreGap =
  area :: string
  gap_expected :: real
  actual :: real
  gap :: real
  priority :: gap_priority

record IndustryBenchmark =
  averageScore :: real
  top10Percent :: real
  medianScore :: real
  percentile :: real

datatype difficulty = Easy | MediumDifficulty | Hard

record BaselineRecommendation =
  category :: string
  action :: string
  expectedImpact :: real
  difficulty :: difficulty
  timeframe :: string

record SiteAnalysis =
  siteType :: string
  baselineScore :: real
  actualScore :: real
  gaps :: "ScoreGap list"
  industryComparison :: IndustryBenchmark
  recommendations :: "BaselineRecommendation list"

text \<open>
  What a call can throw: \<open>new Error(message)\<close>, or the \<open>TypeError\<close> of iterating
  \<open>undefined\<close>.
\<close>

datatype js_error = Error string | TypeError

definition BASELINES :: "(string \<times> BaselineConfig) list" where
  "BASELINES =
     [(''ecommerce-standard'',
       \<lparr>bc_type = ''ecommerce-standard'', baseScore = 75,
        expectedHeaders =
          [\<lparr>eh_name = ''content-security-policy'', expected = True, quality = Good, weight = 25\<rparr>,
           \<lparr>eh_name = ''strict-transport-security'', expected = True, quality = Good, weight = 20\<rparr>,
           \<lparr>eh_name = ''x-frame-options'', expected = True, quality = Good, weight = 15\<rparr>,
           \<lparr>eh_name = ''x-content-type-options'', expected = True, quality = Good, weight = 12\<rparr>,
           \<lparr>eh_name = ''referrer-policy'', expected = False, quality = Basic, weight = 8\<rparr>],
        typicalVulnerabilities = 1, industry = Retail, riskProfile = Conservative\<rparr>),
      (''ecommerce-premium'',
       \<lparr>bc_type = ''ecommerce-premium'', baseScore = 85,
        expectedHeaders =
          [\<lparr>eh_name = ''content-security-policy'', expected = True, quality = Excellent, weight = 25\<rparr>,
           \<lparr>eh_name = ''strict-transport-security'', expected = True, quality = Excellent, weight = 20\<rparr>,
           \<lparr>eh_name = ''x-frame-options'', expected = True, quality = Excellent, weight = 15\<rparr>,
           \<lparr>eh_name = ''x-content-type-options'', expected = True, quality = Excellent, weight = 12\<rparr>,
           \<lparr>eh_name = ''referrer-policy'', expected = True, quality = Excellent, weight = 8\<rparr>],
        typicalVulnerabilities = 0, industry = Retail, riskProfile = Conservative\<rparr>),
      (''enterprise-smb'',
       \<lparr>bc_type = ''enterprise-smb'', baseScore = 70,
        expectedHeaders =
          [\<lparr>eh_name = ''content-security-policy'', expected = True, quality = Basic, weight = 25\<rparr>,
           \<lparr>eh_name = ''strict-transport-security'', expected = True, quality = Good, weight = 20\<rparr>,
           \<lparr>eh_name = ''x-frame-options'', expected = True, quality = Basic, weight = 15\<rparr>,
           \<lparr>eh_name = ''x-content-type-options'', expected = True, quality = Good, weight = 12\<rparr>],
        typicalVulnerabilities = 2, industry = Services, riskProfile = Moderate\<rparr>),
      (''enterprise-corporate'',
       \<lparr>bc_type = ''enterprise-corporate'', baseScore = 80,
        expectedHeaders =
          [\<lparr>eh_name = ''content-security-policy'', expected = True, quality = Good, weight = 25\<rparr>,
           \<lparr>eh_name = ''strict-transport-security'', expected = True, quality = Excellent, weight = 20\<rparr>,
           \<lparr>eh_name = ''x-frame-options'', expected = True, quality = Good, weight = 15\<rparr>,
           \<lparr>eh_name = ''x-content-type-options'', expected = True, quality = Good, weight = 12\<rparr>,
           \<lparr>eh_name = ''referrer-policy'', expected = True, quality = Good, weight = 8\<rparr>],
        typicalVulnerabilities = 1, industry = Services, riskProfile = Conservative\<rparr>),
      (''portfolio-professional'',
       \<lparr>bc_type = ''portfolio-professional'', baseScore = 65,
        expectedHeaders =
          [\<lparr>eh_name = ''content-security-policy'', expected = True, quality = Basic, weight = 20\<rparr>,
           \<lparr>eh_name = ''strict-transport-security'', expected = True, quality = Good, weight = 15\<rparr>,
           \<lparr>eh_name = ''x-frame-options'', expected = False, quality = Basic, weight = 8\<rparr>,
           \<lparr>eh_name = ''x-content-type-options'', expected = True, quality = Good, weight = 10\<rparr>],
        typicalVulnerabilities = 1, industry = Services, riskProfile = Moderate\<rparr>),
      (''saas-platform'',
       \<lparr>bc_type = ''saas-platform'', baseScore = 78,
        expectedHeaders =
          [\<lparr>eh_name = ''content-security-policy'', expected = True, quality = Good, weight = 25\<rparr>,
           \<lparr>eh_name = ''strict-transport-security'', expected = True, quality = Good, weight = 20\<rparr>,
           \<lparr>eh_name = ''x-frame-options'', expected = True, quality = Good, weight = 15\<rparr>,
           \<lparr>eh_name = ''x-content-type-options'', expected = True, quality = Good, weight = 12\<rparr>,
           \<lparr>eh_name = ''referrer-policy'', expected = True, quality = Good, weight = 8\<rparr>],
        typicalVulnerabilities = 1, industry = Technology, riskProfile = Conservative\<rparr>),
      (''government'',
       \<lparr>bc_type = ''government'', baseScore = 90,
        expectedHeaders =
          [\<lparr>eh_name = ''content-security-policy'', expected = True, quality = Excellent, weight = 25\<rparr>,
           \<lparr>eh_name = ''strict-transport-security'', expected = True, quality = Excellent, weight = 20\<rparr>,
           \<lparr>eh_name = ''x-frame-options'', expected = True, quality = Excellent, weight = 15\<rparr>,
           \<lparr>eh_name = ''x-content-type-options'', expected = True, quality = Excellent, weight = 12\<rparr>,
           \<lparr>eh_name = ''referrer-policy'', expected = True, quality = Excellent, weight = 8\<rparr>],
        typicalVulnerabilities = 0, industry = GovernmentIndustry, riskProfile = Conservative\<rparr>),
      (''financial'',
       \<lparr>bc_type = ''financial'', baseScore = 95,
        expectedHeaders =
          [\<lparr>eh_name = ''content-security-policy'', expected = True, quality = Excellent, weight = 25\<rparr>,
           \<lparr>eh_name = ''strict-transport-security'', expected = True, quality = Excellent, weight = 20\<rparr>,
           \<lparr>eh_name = ''x-frame-options'', expected = True, quality = Excellent, weight = 15\<rparr>,
           \<lparr>eh_name = ''x-content-type-options'', expected = True, quality = Excellent, weight = 12\<rparr>,
           \<lparr>eh_name = ''referrer-policy'', expected = True, quality = Excellent, weight = 8\<rparr>],
        typicalVulnerabilities = 0, industry = Finance, riskProfile = Conservative\<rparr>),
      (''healthcare'',
       \<lparr>bc_type = ''healthcare'', baseScore = 85,
        expectedHeaders =
          [\<lparr>eh_name = ''content-security-policy'', expected = True, quality = Excellent, weight = 25\<rparr>,
           \<lparr>eh_name = ''strict-transport-security'', expected = True, quality = Excellent, weight = 20\<rparr>,
           \<lparr>eh_name = ''x-frame-options'', expected = True, quality = Good, weight = 15\<rparr>,
           \<lparr>eh_name = ''x-content-type-options'', expected = True, quality = Good, weight = 12\<rparr>],
        typicalVulnerabilities = 1, industry = Healthcare, riskProfile = Conservative\<rparr>),
      (''education'',
       \<lparr>bc_type = ''education'', baseScore = 75,
        expectedHeaders =
          [\<lparr>eh_name = ''content-security-policy'', expected = True, quality = Good, weight = 25\<rparr>,
           \<lparr>eh_name = ''strict-transport-security'', expected = True, quality = Good, weight = 20\<rparr>,
           \<lparr>eh_name = ''x-frame-options'', expected = True, quality = Good, weight = 15\<rparr>,
           \<lparr>eh_name = ''x-content-type-options'', expected = True, quality = Good, weight = 12\<rparr>],
        typicalVulnerabilities = 1, industry = Education, riskProfile = Moderate\<rparr>),
      (''media-publisher'',
       \<lparr>bc_type = ''media-publisher'', baseScore = 70,
        expectedHeaders =
          [\<lparr>eh_name = ''content-security-policy'', expected = True, quality = Basic, weight = 20\<rparr>,
           \<lparr>eh_name = ''strict-transport-security'', expected = True, quality = Good, weight = 15\<rparr>,
           \<lparr>eh_name = ''x-frame-options'', expected = False, quality = Basic, weight = 10\<rparr>,
           \<lparr>eh_name = ''x-content-type-options'', expected = True, quality = Good, weight = 12\<rparr>],
        typicalVulnerabilities = 2, industry = Media, riskProfile = Moderate\<rparr>),
      (''blog-influencer'',
       \<lparr>bc_type = ''blog-influencer'', baseScore = 60,
        expectedHeaders =
          [\<lparr>eh_name = ''content-security-policy'', expected = True, quality = Basic, weight = 15\<rparr>,
           \<lparr>eh_name = ''strict-transport-security'', expected = True, quality = Good, weight = 12\<rparr>,
           \<lparr>eh_name = ''x-frame-options'', expected = False, quality = Basic, weight = 5\<rparr>,
           \<lparr>eh_name = ''x-content-type-options'', expected = True, quality = Good, weight = 8\<rparr>],
        typicalVulnerabilities = 1, industry = Media, riskProfile = Moderate\<rparr>),
      (''landing-page-conversion'',
       \<lparr>bc_type = ''landing-page-conversion'', baseScore = 65,
        expectedHeaders =
          [\<lparr>eh_name = ''content-security-policy'', expected = True, quality = Basic, weight = 18\<rparr>,
           \<lparr>eh_name = ''strict-transport-security'', expected = True, quality = Good, weight = 15\<rparr>,
           \<lparr>eh_name = ''x-frame-options'', expected = True, quality = Good, weight = 12\<rparr>,
           \<lparr>eh_name = ''x-content-type-options'', expected = True, quality = Good, weight = 10\<rparr>],
        typicalVulnerabilities = 1, industry = Services, riskProfile = Moderate\<rparr>)]"

text \<open>\<open>INDUSTRY_BENCHMARKS\<close>: average, top 10 percent, median.\<close>

fun INDUSTRY_BENCHMARKS :: "IndustryType \<Rightarrow> real \<times> real \<times> real" where
  "INDUSTRY_BENCHMARKS Retail = (72, 88, 70)"
| "INDUSTRY_BENCHMARKS Finance = (85, 96, 83)"
| "INDUSTRY_BENCHMARKS GovernmentIndustry = (78, 92, 76)"
| "INDUSTRY_BENCHMARKS Healthcare = (74, 89, 72)"
| "INDUSTRY_BENCHMARKS Education = (68, 84, 66)"
| "INDUSTRY_BENCHMARKS Technology = (76, 90, 74)"
| "INDUSTRY_BENCHMARKS Media = (65, 82, 63)"
| "INDUSTRY_BENCHMARKS Manufacturing = (69, 85, 67)"
| "INDUSTRY_BENCHMARKS Services = (71, 87, 69)"
| "INDUSTRY_BENCHMARKS Nonprofit = (62, 80, 60)"

text \<open>\<open>getQualityMultiplier\<close>, \<open>calculateHeaderScore\<close>, \<open>calculateVulnerabilityPenalty\<close>\<close>

fun getQualityMultiplier :: "quality \<Rightarrow> real" where
  "getQualityMultiplier Basic = 0.6"
| "getQualityMultiplier Good = 0.8"
| "getQualityMultiplier Excellent = 1.0"

definition calculateHeaderScore :: "(string \<rightharpoonup> string) \<Rightarrow> ExpectedHeader list \<Rightarrow> real" where
  "calculateHeaderScore actualHeaders expHeaders =
     fold (\<lambda>e sc.
             let actualValue = actualHeaders (toLowerCase (eh_name e))
             in if truthy actualValue
                then sc + weight e * getQualityMultiplier (quality e)
                else if expected e then sc - weight e * 0.5
                else sc)
          expHeaders 0"

definition calculateVulnerabilityPenalty :: "VulnerabilityData \<Rightarrow> int \<Rightarrow> real" where
  "calculateVulnerabilityPenalty actualVulns typicalCount =
     (let totalVulns = critical actualVulns + high actualVulns + medium actualVulns
                       + low actualVulns;
          extraVulns = max 0 (totalVulns - typicalCount)
      in if extraVulns = 0 then 0
         else
           (let penalty = (0::int);
                penalty = (if critical actualVulns > 0 then penalty - 15 * critical actualVulns
                           else penalty);
                penalty = (if high actualVulns > 0 then penalty - 8 * high actualVulns
                           else penalty);
                penalty = (if medium actualVulns > 0 then penalty - 3 * medium actualVulns
                           else penalty);
                penalty = (if low actualVulns > 0 then penalty - 1 * low actualVulns
                           else penalty)
            in of_int (min penalty (- 20))))"

text \<open>
  \<open>calculateActualQualityScore\<close> with \<open>evaluateCSPQualityScore\<close> and
  \<open>evaluateHSTSQualityScore\<close>
\<close>

definition evaluateCSPQualityScore :: "string \<Rightarrow> real" where
  "evaluateCSPQualityScore cspValue =
     (let sc = 10;
          sc = (if js_includes cspValue ''default-src'' then sc + 5 else sc);
          sc = (if js_includes cspValue ''script-src'' then sc + 5 else sc);
          sc = (if js_includes cspValue ''style-src'' then sc + 3 else sc);
          sc = (if \<not> js_includes cspValue (CHR 0x27 # ''unsafe-inline'' @ [CHR 0x27])
                then sc + 4 else sc);
          sc = (if js_includes cspValue ''nonce-'' \<or> js_includes cspValue ''sha256-''
                then sc + 3 else sc)
      in min 25 sc)"

definition evaluateHSTSQualityScore :: "string \<Rightarrow> real" where
  "evaluateHSTSQualityScore hstsValue =
     (let sc = 10;
          sc = (if js_includes hstsValue ''max-age='' then sc + 5 else sc);
          sc = (if js_includes hstsValue ''includeSubDomains'' then sc + 3 else sc);
          sc = (if js_includes hstsValue ''preload'' then sc + 2 else sc)
      in min 20 sc)"

definition calculateActualQualityScore :: "string \<Rightarrow> string \<Rightarrow> real" where
  "calculateActualQualityScore headerName val =
     (let n = toLowerCase headerName
      in if n = ''content-security-policy'' then evaluateCSPQualityScore val
         else if n = ''strict-transport-security'' then evaluateHSTSQualityScore val
         else if n = ''x-frame-options''
              then (if js_includes val ''DENY'' \<or> js_includes val ''SAMEORIGIN'' then 15 else 8)
         else if n = ''x-content-type-options''
              then (if toLowerCase val = ''nosniff'' then 12 else 6)
         else if n = ''referrer-policy'' then 8
         else 5)"

text \<open>
  \<open>identifyGaps\<close>: the loop appends to \<open>gaps\<close>; the final \<open>sort\<close> is stable and orders
  by descending gap.
\<close>

definition gap_step :: "(string \<rightharpoonup> string) \<Rightarrow> ExpectedHeader \<Rightarrow> ScoreGap list \<Rightarrow> ScoreGap list" where
  "gap_step actualHeaders e gs =
     (let actualValue = actualHeaders (toLowerCase (eh_name e))
      in if expected e \<and> \<not> truthy actualValue
         then gs @ [\<lparr>area = eh_name e, gap_expected = weight e, actual = 0, gap = weight e,
                      priority = (if weight e \<ge> 20 then PriorityCritical
                                  else if weight e \<ge> 15 then PriorityHigh
                                  else PriorityMedium)\<rparr>]
         else if truthy actualValue
         then (let actualQualityScore = calculateActualQualityScore (eh_name e) (the actualValue);
                   expectedQualityScore = weight e * getQualityMultiplier (quality e);
                   g = expectedQualityScore - actualQualityScore
               in if g > 5
                  then gs @ [\<lparr>area = eh_name e, gap_expected = expectedQualityScore,
                               actual = actualQualityScore, gap = g,
                               priority = (if g \<ge> 15 then PriorityHigh else PriorityMedium)\<rparr>]
                  else gs)
         else gs)"

definition identifyGaps :: "(string \<rightharpoonup> string) \<Rightarrow> ExpectedHeader list \<Rightarrow> ScoreGap list" where
  "identifyGaps actualHeaders expHeaders =
     sort_key (\<lambda>g. - gap g) (fold (gap_step actualHeaders) expHeaders [])"

text \<open>\<open>getIndustryBenchmark\<close> and \<open>generateRecommendations\<close>\<close>

definition getIndustryBenchmark :: "IndustryType \<Rightarrow> IndustryBenchmark" where
  "getIndustryBenchmark ind =
     (case INDUSTRY_BENCHMARKS ind of (average, top10, median) \<Rightarrow>
        \<lparr>averageScore = average, top10Percent = top10, medianScore = median, percentile = 50\<rparr>)"

definition generateRecommendations :: "ScoreGap list \<Rightarrow> BaselineConfig \<Rightarrow> BaselineRecommendation list"
  where
  "generateRecommendations gs config =
     (let criticalGaps = filter (\<lambda>g. priority g = PriorityCritical) gs;
          highGaps = filter (\<lambda>g. priority g = PriorityHigh) gs
      in map (\<lambda>g. \<lparr>category = ''Security Headers'', action = ''Implementar '' @ area g,
                     expectedImpact = gap g, difficulty = Easy,
                     timeframe = ''1-2 d'' @ [CHR 0xED] @ ''as''\<rparr>) criticalGaps
         @ map (\<lambda>g. \<lparr>category = ''Security Headers'', action = ''Mejorar '' @ area g,
                       expectedImpact = gap g * 0.7, difficulty = MediumDifficulty,
                       timeframe = ''3-5 d'' @ [CHR 0xED] @ ''as''\<rparr>) (take 3 highGaps))"

text \<open>
  \<open>analyzeSite\<close>. The lookup \<open>this.BASELINES[siteType]\<close> is \<open>undefined\<close> for a name that
  is neither a key of the table nor a member of \<open>Object.prototype\<close>, and then the function
  throws \<open>Error('Tipo de sitio no reconocido: ...')\<close>. For a member of \<open>Object.prototype\<close>
  the value is truthy, its \<open>expectedHeaders\<close> is \<open>undefined\<close>, and the loop of
  \<open>calculateHeaderScore\<close> throws a \<open>TypeError\<close>.
\<close>

definition analyzeSite ::
  "string \<Rightarrow> (string \<rightharpoonup> string) \<Rightarrow> VulnerabilityData \<Rightarrow> js_error + SiteAnalysis" where
  "analyzeSite sType actualHeaders actualVulnerabilities =
     (case js_get BASELINES sType of
        Undefined \<Rightarrow> Inl (Error (''Tipo de sitio no reconocido: '' @ sType))
      | Inherited \<Rightarrow> Inl TypeError
      | Own config \<Rightarrow>
          (let headerScore = calculateHeaderScore actualHeaders (expectedHeaders config);
               vulnPenalty = calculateVulnerabilityPenalty actualVulnerabilities
                               (typicalVulnerabilities config);
               actScore = max 0 (min 100 (baseScore config + headerScore + vulnPenalty));
               gs = identifyGaps actualHeaders (expectedHeaders config);
               industryBenchmark = getIndustryBenchmark (industry config);
               recs = generateRecommendations gs config
           in Inr \<lparr>siteType = sType,
                   baselineScore = baseScore config,
                   actualScore = actScore,
                   gaps = gs,
                   industryComparison = industryBenchmark,
                   recommendations = recs\<rparr>))"

section \<open>index.tsx: the analysis functions\<close>

subsection \<open>String helpers\<close>

text \<open>\<open>s.split('\n')\<close>: the pieces between line feeds; never the empty list.\<close>

fun split_lines :: "string \<Rightarrow> string list" where
  "split_lines [] = [[]]"
| "split_lines (c # cs) =
     (if c = CHR 0x0A then [] # split_lines cs
      else case split_lines cs of
             [] \<Rightarrow> [[c]]
           | l # ls \<Rightarrow> (c # l) # ls)"

text \<open>A number in a template string or in \<open>join\<close>: its decimal digits.\<close>

fun string_of_nat :: "nat \<Rightarrow> string" where
  "string_of_nat n =
     (if n < 10 then [char_of (48 + n)]
      else string_of_nat (n div 10) @ [char_of (48 + n mod 10)])"

declare string_of_nat.simps [simp del]

fun join :: "string \<Rightarrow> string list \<Rightarrow> string" where
  "join sep [] = []"
| "join sep [x] = x"
| "join sep (x # y # ys) = x @ sep @ join sep (y # ys)"

subsection \<open>detectVulnerableTechnologies\<close>

text \<open>
  A detected technology \<open>{name, version?, currentVersion?}\<close>, an entry of
  \<open>vulnerabilityDatabase\<close> and an entry of \<open>vulnerablePatterns\<close>.
\<close>

record DetectedTechnology =
  tech_name :: string
  tech_version :: "string option"
  currentVersion :: "string option"

record VulnerabilityEntry =
  versions :: "string list option"
  patterns :: "rx list option"
  db_vulnerability :: string
  db_severity :: severity
  cveId :: "string option"

record VulnerablePattern =
  pattern :: rx
  vp_vulnerability :: string
  vp_severity :: severity
  exploitation :: string
  vp_recommendation :: string

definition vulnerabilityDatabase :: "(string \<times> VulnerabilityEntry) list" where
  "vulnerabilityDatabase =
     [(''jQuery'',
       \<lparr>versions = Some [''1.'', ''2.'', ''3.0.'', ''3.1.'', ''3.2.'', ''3.3.'', ''3.4.''],
        patterns = None,
        db_vulnerability = ''jQuery XSS vulnerabilities and prototype pollution (CVE-2020-11022, CVE-2020-11023)'',
        db_severity = High,
        cveId = Some ''CVE-2020-11022''\<rparr>),
      (''React'',
       \<lparr>versions = Some [''15.'', ''16.'', ''17.0.'', ''17.1.'', ''17.2.''],
        patterns = None,
        db_vulnerability = ''XSS vulnerability via dangerouslySetInnerHTML and URL parsing (CVE-2019-7580)'',
        db_severity = High,
        cveId = Some ''CVE-2019-7580''\<rparr>),
      (''WordPress'',
       \<lparr>versions = Some [''4.'', ''5.0.'', ''5.1.'', ''5.2.'', ''5.3.'', ''5.4.'', ''5.5.'', ''5.6.'', ''5.7.'', ''5.8.''],
        patterns = None,
        db_vulnerability = ''WordPress XSS, SQL Injection, and RCE vulnerabilities (Multiple CVEs)'',
        db_severity = Critical,
        cveId = Some ''CVE-2022-39986''\<rparr>),
      (''PHP'',
       \<lparr>versions = Some [''5.'', ''7.0.'', ''7.1.'', ''7.2.'', ''7.3.'', ''7.4.''],
        patterns = None,
        db_vulnerability = ''PHP multiple vulnerabilities including RCE and file inclusion (CVE-2023-3247)'',
        db_severity = Critical,
        cveId = Some ''CVE-2023-3247''\<rparr>),
      (''Angular'',
       \<lparr>versions = Some [''1.'', ''2.'', ''4.'', ''5.'', ''6.'', ''7.'', ''8.'', ''9.'', ''10.'', ''11.'', ''12.'', ''13.'', ''14.''],
        patterns = None,
        db_vulnerability = ''Angular XSS vulnerability in template parsing (CVE-2020-5216)'',
        db_severity = High,
        cveId = Some ''CVE-2020-5216''\<rparr>),
      (''Vue.js'',
       \<lparr>versions = Some [''2.0.'', ''2.1.'', ''2.2.'', ''2.3.'', ''2.4.'', ''2.5.'', ''2.6.'', ''3.0.'', ''3.1.''],
        patterns = None,
        db_vulnerability = ''XSS vulnerability via v-html directive (CVE-2023-2649)'',
        db_severity = High,
        cveId = Some ''CVE-2023-2649''\<rparr>),
      (''Bootstrap'',
       \<lparr>versions = Some [''3.'', ''4.'', ''5.0.'', ''5.1.''],
        patterns = None,
        db_vulnerability = ''Bootstrap XSS vulnerability in tooltip/popover (CVE-2019-8331)'',
        db_severity = Medium,
        cveId = Some ''CVE-2019-8331''\<rparr>),
      (''jQuery UI'',
       \<lparr>versions = Some [''1.10.'', ''1.11.'', ''1.12.''],
        patterns = None,
        db_vulnerability = ''jQuery UI XSS vulnerability in removeClass function'',
        db_severity = High,
        cveId = None\<rparr>),
      (''Moment.js'',
       \<lparr>versions = Some [''2.22.'', ''2.23.'', ''2.24.'', ''2.25.'', ''2.26.''],
        patterns = None,
        db_vulnerability = ''Moment.js path traversal vulnerability (CVE-2022-24729)'',
        db_severity = High,
        cveId = Some ''CVE-2022-24729''\<rparr>),
      (''Lodash'',
       \<lparr>versions = Some [''4.17.0'', ''4.17.1'', ''4.17.2'', ''4.17.3'', ''4.17.4''],
        patterns = None,
        db_vulnerability = ''Lodash prototype pollution vulnerability (CVE-2019-10744)'',
        db_severity = Critical,
        cveId = Some ''CVE-2019-10744''\<rparr>),
      (''Express'',
       \<lparr>versions = Some [''4.0.'', ''4.1.'', ''4.2.'', ''4.3.'', ''4.4.'', ''4.5.'', ''4.6.''],
        patterns = None,
        db_vulnerability = ''Express framework XSS and open redirect vulnerabilities'',
        db_severity = Medium,
        cveId = None\<rparr>)]"

text \<open>
  The nine signatures, all with the flags \<open>gi\<close>:
  \<^verbatim>\<open>/eval\s*\(/\<close>,
  \<^verbatim>\<open>/document\.write\s*\(/\<close>,
  \<^verbatim>\<open>/innerHTML\s*=/\<close>,
  \<^verbatim>\<open>/\.html\s*\(\s*[^)]*(?:atob|base64|nombre|variantListHtml|userContent|dataInput|htmlContent)[^)]*\)/\<close>,
  \<^verbatim>\<open>/\$\([^)]*\)\.html\s*\(\s*(?:[^)]*atob|[^)]*base64|[^)]*nombre|[^)]*variantListHtml)/\<close>,
  \<^verbatim>\<open>/setTimeout\s*\(\s*['"]/\<close>,
  \<^verbatim>\<open>/location\s*=\s*['"]?['"]?\s*\+/\<close>,
  \<^verbatim>\<open>/console\.(log|error|warn)\s*\(/\<close>,
  \<^verbatim>\<open>/debug\s*=\s*true/\<close>.
\<close>

definition pattern_1 :: rx where
  "pattern_1 = seqs [lit_i ''eval'', Star ws, ci (CHR ''('')]"
definition pattern_2 :: rx where
  "pattern_2 = seqs [lit_i ''document.write'', Star ws, ci (CHR ''('')]"
definition pattern_3 :: rx where
  "pattern_3 = seqs [lit_i ''innerHTML'', Star ws, ci (CHR ''='')]"
definition pattern_4 :: rx where
  "pattern_4 = seqs [lit_i ''.html'', Star ws, ci (CHR ''(''), Star ws, Star (not_ch (CHR '')'')),
                 alts [lit_i ''atob'', lit_i ''base64'', lit_i ''nombre'', lit_i ''variantListHtml'',
                       lit_i ''userContent'', lit_i ''dataInput'', lit_i ''htmlContent''],
                 Star (not_ch (CHR '')'')), ci (CHR '')'')]"
definition pattern_5 :: rx where
  "pattern_5 = seqs [lit_i ''$('', Star (not_ch (CHR '')'')), lit_i '').html'', Star ws, ci (CHR ''(''), Star ws,
                 alts [seqs [Star (not_ch (CHR '')'')), lit_i ''atob''],
                       seqs [Star (not_ch (CHR '')'')), lit_i ''base64''],
                       seqs [Star (not_ch (CHR '')'')), lit_i ''nombre''],
                       seqs [Star (not_ch (CHR '')'')), lit_i ''variantListHtml'']]]"
definition pattern_6 :: rx where
  "pattern_6 = seqs [lit_i ''setTimeout'', Star ws, ci (CHR ''(''), Star ws, one_of [CHR 0x27, CHR 0x22]]"
definition pattern_7 :: rx where
  "pattern_7 = seqs [lit_i ''location'', Star ws, ci (CHR ''=''), Star ws, opt (one_of [CHR 0x27, CHR 0x22]),
                 opt (one_of [CHR 0x27, CHR 0x22]), Star ws, ci (CHR ''+'')]"
definition pattern_8 :: rx where
  "pattern_8 = seqs [lit_i ''console.'', alts [lit_i ''log'', lit_i ''error'', lit_i ''warn''], Star ws,
                 ci (CHR ''('')]"
definition pattern_9 :: rx where
  "pattern_9 = seqs [lit_i ''debug'', Star ws, ci (CHR ''=''), Star ws, lit_i ''true'']"

definition vulnerablePatterns :: "VulnerablePattern list" where
  "vulnerablePatterns =
     [\<lparr>pattern = pattern_1,
        vp_vulnerability = ''Use of dangerous eval() function'',
        vp_severity = High,
        exploitation = (''Permite ejecuci'' @ [CHR 0xF3] @ ''n arbitraria de c'' @ [CHR 0xF3] @ ''digo JavaScript, facilitando RCE y XSS''),
        vp_recommendation = ''Evitar eval(), usar JSON.parse() para datos o funciones predefinidas''\<rparr>,
      \<lparr>pattern = pattern_2,
        vp_vulnerability = ''Potential XSS via document.write()'',
        vp_severity = Medium,
        exploitation = (''Puede ejecutar c'' @ [CHR 0xF3] @ ''digo malicioso si se usan datos no sanitizados''),
        vp_recommendation = ''Usar textContent o createElement para manipular DOM''\<rparr>,
      \<lparr>pattern = pattern_3,
        vp_vulnerability = ''Potential XSS via innerHTML assignment'',
        vp_severity = Medium,
        exploitation = (''Permite inyecci'' @ [CHR 0xF3] @ ''n de HTML/JavaScript malicioso en el DOM''),
        vp_recommendation = (''Usar textContent, createElement() o bibliotecas de sanitizaci'' @ [CHR 0xF3] @ ''n'')\<rparr>,
      \<lparr>pattern = pattern_4,
        vp_vulnerability = ''XSS via .html() with potentially unsafe content'',
        vp_severity = High,
        exploitation = (''Si la variable contiene datos decodificados (base64) o input del usuario, permite inyecci'' @ [CHR 0xF3] @ ''n de c'' @ [CHR 0xF3] @ ''digo malicioso''),
        vp_recommendation = ''Usar .text() en lugar de .html() para contenido de texto, sanitizar datos antes de usar .html()''\<rparr>,
      \<lparr>pattern = pattern_5,
        vp_vulnerability = ''jQuery XSS via .html() with decoded/base64 content'',
        vp_severity = High,
        exploitation = ''Uso de .html() con datos decodificados de base64 puede ejecutar scripts maliciosos'',
        vp_recommendation = ''Validar y sanitizar contenido antes de usar .html(), usar .text() para contenido de texto''\<rparr>,
      \<lparr>pattern = pattern_6,
        vp_vulnerability = ''Potential XSS via setTimeout with string parameter'',
        vp_severity = Medium,
        exploitation = (''Ejecuci'' @ [CHR 0xF3] @ ''n de c'' @ [CHR 0xF3] @ ''digo desde par'' @ [CHR 0xE1] @ ''metros de entrada''),
        vp_recommendation = ''Usar funciones en lugar de strings en setTimeout''\<rparr>,
      \<lparr>pattern = pattern_7,
        vp_vulnerability = ''Potential redirect/open redirect attack'',
        vp_severity = Medium,
        exploitation = (''Redirecci'' @ [CHR 0xF3] @ ''n a sitios maliciosos usando datos del usuario''),
        vp_recommendation = ''Validar URLs internamente y usar whitelists de dominios''\<rparr>,
      \<lparr>pattern = pattern_8,
        vp_vulnerability = ''Console logging in production code'',
        vp_severity = Low,
        exploitation = (''Puede exponer informaci'' @ [CHR 0xF3] @ ''n sensible en navegador del usuario''),
        vp_recommendation = (''Remover console logs en producci'' @ [CHR 0xF3] @ ''n o usar logging libraries'')\<rparr>,
      \<lparr>pattern = pattern_9,
        vp_vulnerability = ''Debug mode enabled in production'',
        vp_severity = Medium,
        exploitation = (''Informaci'' @ [CHR 0xF3] @ ''n de depuraci'' @ [CHR 0xF3] @ ''n expuesta puede ayudar a atacantes''),
        vp_recommendation = (''Deshabilitar debug en producci'' @ [CHR 0xF3] @ ''n y usar configuraci'' @ [CHR 0xF3] @ ''n por entorno'')\<rparr>]"

text \<open>
  The first loop: a technology with a truthy version whose database entry lists a version
  prefix of it (or has a pattern matching it) gives one finding. A name inherited from
  \<open>Object.prototype\<close> yields a value without \<open>versions\<close> and \<open>patterns\<close>, hence no
  finding.
\<close>

definition tech_finding :: "DetectedTechnology \<Rightarrow> VulnerableTechnology list" where
  "tech_finding tech =
     (case js_get vulnerabilityDatabase (tech_name tech) of
        Undefined \<Rightarrow> []
      | Inherited \<Rightarrow> []
      | Own vuln \<Rightarrow>
          if truthy (tech_version tech)
          then (let v = the (tech_version tech);
                    isVulnerable = False;
                    isVulnerable = (case versions vuln of
                                      Some vs \<Rightarrow> list_ex (\<lambda>vulnerableVersion. startsWith v vulnerableVersion) vs
                                    | None \<Rightarrow> isVulnerable);
                    isVulnerable = (case patterns vuln of
                                      Some ps \<Rightarrow> if \<not> isVulnerable
                                                 then list_ex (\<lambda>p. regex_test p v) ps
                                                 else isVulnerable
                                    | None \<Rightarrow> isVulnerable)
                in if isVulnerable
                   then [\<lparr>name = tech_name tech, version = v,
                           vulnerability = db_vulnerability vuln, severity = db_severity vuln,
                           lineNumbers = None, recommendation = None\<rparr>]
                   else [])
          else [])"

text \<open>
  The second loop. \<open>html.match(pattern)\<close> with the \<open>g\<close> flag returns all matches, or
  \<open>null\<close> when there is none. The inner loop over the lines calls \<open>pattern.test(line)\<close>,
  which starts at \<open>lastIndex\<close>, and then sets \<open>lastIndex\<close> back to 0; \<open>match\<close> has left it
  at 0 before the first line.
\<close>

definition line_step :: "rx \<Rightarrow> string \<times> nat \<Rightarrow> nat \<times> nat list \<Rightarrow> nat \<times> nat list" where
  "line_step p entry st =
     (case entry of (line, index) \<Rightarrow>
      case st of (lastIndex, foundLines) \<Rightarrow>
        (case global_test p lastIndex line of
           (matched, lastIndex') \<Rightarrow>
             (0, if matched then foundLines @ [index + 1] else foundLines)))"

definition find_lines :: "rx \<Rightarrow> string \<Rightarrow> nat list" where
  "find_lines p html =
     (let lines = split_lines html
      in snd (fold (line_step p) (zip lines [0..<length lines]) (0, [])))"

definition Lineas :: string where
  "Lineas = ''L'' @ [CHR 0xED] @ ''neas: ''"

definition pattern_finding :: "VulnerablePattern \<Rightarrow> string \<Rightarrow> VulnerableTechnology list" where
  "pattern_finding vp html =
     (if search_from (pattern vp) 0 html \<noteq> None
      then (let foundLines = find_lines (pattern vp) html
            in [\<lparr>name = ''JavaScript Code Pattern'',
                  version = Lineas @ join '', '' (map string_of_nat (take 3 foundLines))
                            @ (if length foundLines > 3 then ''...'' else []),
                  vulnerability = vp_vulnerability vp @ '' - '' @ exploitation vp,
                  severity = vp_severity vp,
                  lineNumbers = Some foundLines,
                  recommendation = Some (vp_recommendation vp)\<rparr>])
      else [])"

definition debug_finding :: "string \<Rightarrow> VulnerableTechnology list" where
  "debug_finding html =
     (if js_includes html ''debug=true'' \<or> js_includes html ''debug = true''
      then [\<lparr>name = ''Debug Configuration'', version = ''Enabled'',
              vulnerability = ''Debug mode enabled in production'', severity = Medium,
              lineNumbers = None, recommendation = None\<rparr>]
      else [])"

definition console_finding :: "string \<Rightarrow> VulnerableTechnology list" where
  "console_finding html =
     (if js_includes html ''console.log'' \<or> js_includes html ''console.error''
      then [\<lparr>name = ''Console Logging'', version = ''Present'',
              vulnerability = ''Console logging in production code'', severity = Low,
              lineNumbers = None, recommendation = None\<rparr>]
      else [])"

text \<open>The findings are pushed in this order.\<close>

definition detectVulnerableTechnologies ::
  "DetectedTechnology list \<Rightarrow> string \<Rightarrow> VulnerableTechnology list" where
  "detectVulnerableTechnologies technologies html =
     concat (map tech_finding technologies)
     @ concat (map (\<lambda>vp. pattern_finding vp html) vulnerablePatterns)
     @ debug_finding html
     @ console_finding html"

subsection \<open>validateRobotsTxt\<close>

text \<open>\<open>s.trim()\<close> removes white space and line terminators at both ends.\<close>

definition trim :: "string \<Rightarrow> string" where
  "trim s = rev (dropWhile is_space (rev (dropWhile is_space s)))"

text \<open>
  \<open>extractUserAgentSection\<close>: the loop over the lines carries \<open>inTargetSection\<close> and
  \<open>sectionContent\<close>; a \<open>break\<close> ends it with the content collected so far. The line is
  tested in lower case and trimmed, and collected as it is.
\<close>

fun section_loop :: "string \<Rightarrow> string list \<Rightarrow> bool \<times> string \<Rightarrow> string" where
  "section_loop userAgent [] (inTargetSection, sectionContent) = sectionContent"
| "section_loop userAgent (line # rest) (inTargetSection, sectionContent) =
     (let lowerLine = trim (toLowerCase line)
      in if startsWith lowerLine ''user-agent:''
         then (if js_includes lowerLine (toLowerCase userAgent) \<or> js_includes lowerLine ''*''
               then section_loop userAgent rest (True, line @ [CHR 0x0A])
               else if inTargetSection then sectionContent
               else section_loop userAgent rest (inTargetSection, sectionContent))
         else if inTargetSection
         then (let sectionContent = sectionContent @ line @ [CHR 0x0A]
               in if startsWith lowerLine ''user-agent:'' then sectionContent
                  else section_loop userAgent rest (inTargetSection, sectionContent))
         else section_loop userAgent rest (inTargetSection, sectionContent))"

definition extractUserAgentSection :: "string \<Rightarrow> string \<Rightarrow> string option" where
  "extractUserAgentSection robotsText userAgent =
     (let sectionContent = section_loop userAgent (split_lines robotsText) (False, [])
      in if trim sectionContent \<noteq> [] then Some (trim sectionContent) else None)"

text \<open>
  What the awaited \<open>fetch\<close> of \<open>/robots.txt\<close> gives: an exception anywhere in the \<open>try\<close>
  block (a bad URL, a network error), or a response with its status and body text.
  \<open>response.ok\<close> is a status from 200 to 299.
\<close>

datatype fetch_result = Threw | Response nat string

definition response_ok :: "nat \<Rightarrow> bool" where
  "response_ok status \<longleftrightarrow> 200 \<le> status \<and> status \<le> 299"

definition validateRobotsTxt :: "fetch_result \<Rightarrow> bool" where
  "validateRobotsTxt res =
     (case res of
        Threw \<Rightarrow> True
      | Response status robotsText \<Rightarrow>
          if \<not> response_ok status then True
          else
            (let userAgent = ''ScrapiiBot/2.0'';
                 lowerText = toLowerCase robotsText;
                 hasGeneralDisallow = js_includes lowerText ''disallow: /'';
                 hasSpecificUserAgent =
                   js_includes lowerText (''user-agent: '' @ toLowerCase userAgent)
             in case (if hasSpecificUserAgent
                      then extractUserAgentSection robotsText userAgent else None) of
                  Some userAgentSection \<Rightarrow> \<not> js_includes userAgentSection ''disallow: /''
                | None \<Rightarrow>
                    (let hasWildcardUserAgent = js_includes lowerText ''user-agent: *''
                     in if hasWildcardUserAgent \<and> hasGeneralDisallow then False else True)))"

subsection \<open>analyzeSecurityHeaders\<close>

text \<open>
  \<open>headers.get(name)\<close> of a \<open>Headers\<close> object: the value or \<open>null\<close>. \<open>parseInt\<close> reads
  the leading decimal digits and gives \<open>NaN\<close> (here \<open>None\<close>) when there is none; the strings
  it is applied to are a run of digits. A comparison with \<open>NaN\<close> is false.
\<close>

type_synonym Headers = "string \<rightharpoonup> string"

definition digit_value :: "char \<Rightarrow> nat" where
  "digit_value c = of_char c - 48"

definition decimal :: "string \<Rightarrow> nat" where
  "decimal ds = foldl (\<lambda>n c. 10 * n + digit_value c) 0 ds"

definition parseInt :: "string \<Rightarrow> nat option" where
  "parseInt s =
     (let ds = takeWhile is_digit s in if ds = [] then None else Some (decimal ds))"

definition ge_number :: "nat option \<Rightarrow> nat \<Rightarrow> bool" where
  "ge_number x k = (case x of None \<Rightarrow> False | Some n \<Rightarrow> k \<le> n)"

text \<open>
  \<^verbatim>\<open>hsts.match(/max-age=(\d+)/)?.[1] || '0'\<close>: the group is the match without its first
  eight characters \<open>max-age=\<close>.
\<close>

definition max_age_pattern :: rx where
  "max_age_pattern = seqs [lit ''max-age='', rx_plus digit]"

definition max_age_digits :: "string \<Rightarrow> string" where
  "max_age_digits hsts =
     (case js_match max_age_pattern hsts of
        None \<Rightarrow> ''0''
      | Some m \<Rightarrow> if drop 8 m \<noteq> [] then drop 8 m else ''0'')"

record HeaderDetail =
  hd_present :: bool
  valid :: bool
  content :: string

record HstsDetail = HeaderDetail +
  maxAge :: "nat option"

record InfoDisclosure =
  serverExposed :: bool
  poweredByExposed :: bool

record DetailedHeaders =
  d_csp :: HeaderDetail
  d_hsts :: HstsDetail
  xssProtection :: HeaderDetail
  referrerPolicy :: HeaderDetail
  frameOptions :: HeaderDetail
  infoDisclosure :: InfoDisclosure

record SecurityHeaderReport =
  csp :: bool
  hsts :: bool
  xss :: bool
  contentType :: bool
  detailed :: DetailedHeaders

definition No_presente :: string where
  "No_presente = ''No presente''"

definition content_or :: "string option \<Rightarrow> string" where
  "content_or v = (if truthy v then the v else No_presente)"

definition analyzeSecurityHeaders :: "Headers \<Rightarrow> SecurityHeaderReport" where
  "analyzeSecurityHeaders hs =
     (let cspH = hs ''content-security-policy'';
          hstsH = hs ''strict-transport-security'';
          xssProtectionH = hs ''x-xss-protection'';
          contentTypeH = hs ''x-content-type-options'';
          referrerPolicyH = hs ''referrer-policy'';
          permissionsPolicyH = hs ''permissions-policy'';
          xFrameOptionsH = hs ''x-frame-options'';
          serverHeader = hs ''server'';
          poweredBy = hs ''x-powered-by'';
          cspValid =
            (if truthy cspH
             then (let cspParts = toLowerCase (the cspH)
                   in js_includes cspParts ''default-src'' \<and> js_includes cspParts ''script-src''
                      \<and> (js_includes cspParts ''unsafe-inline'' = False
                           \<or> js_includes cspParts ''nonce-'' \<or> js_includes cspParts ''sha256-''))
             else False);
          hstsValid =
            (if truthy hstsH
             then js_includes (the hstsH) ''max-age=''
                  \<and> ge_number (parseInt (max_age_digits (the hstsH))) 31536000
             else False);
          xssValid =
            (if truthy xssProtectionH
             then toLowerCase (the xssProtectionH) = ''1; mode=block''
             else if truthy cspH
             then js_includes (toLowerCase (the cspH)) ''object-src''
                  \<and> js_includes (toLowerCase (the cspH)) ''script-src''
             else False);
          contentTypeValid =
            (case contentTypeH of None \<Rightarrow> False | Some v \<Rightarrow> toLowerCase v = ''nosniff'');
          referrerPolicyValid =
            (if truthy referrerPolicyH
             then list_ex (\<lambda>policy. js_includes (toLowerCase (the referrerPolicyH)) policy)
                    [''no-referrer'', ''strict-origin-when-cross-origin'',
                     ''no-referrer-when-downgrade'']
             else False);
          frameOptionsValid =
            (if truthy xFrameOptionsH
             then list_ex (\<lambda>option. js_includes (toLowerCase (the xFrameOptionsH)) option)
                    [''deny'', ''sameorigin'', ''allow-from'']
             else False);
          srvExposed =
            (if truthy serverHeader
             then list_ex (\<lambda>p. regex_test p (the serverHeader))
                    [lit_i ''apache'', lit_i ''nginx'', lit_i ''iis'', lit_i ''lighttpd'',
                     lit_i ''tomcat'']
             else False);
          pbExposed =
            (if truthy poweredBy
             then list_ex (\<lambda>p. regex_test p (the poweredBy))
                    [lit_i ''express'', lit_i ''php'', lit_i ''laravel'', lit_i ''django'',
                     lit_i ''rails'']
             else False)
      in \<lparr>csp = cspValid,
          hsts = hstsValid,
          xss = xssValid,
          contentType = contentTypeValid,
          detailed =
            \<lparr>d_csp = \<lparr>hd_present = truthy cspH, valid = cspValid, content = content_or cspH\<rparr>,
             d_hsts = \<lparr>hd_present = truthy hstsH, valid = hstsValid, content = content_or hstsH,
                       maxAge = (if truthy hstsH then parseInt (max_age_digits (the hstsH))
                                 else Some 0)\<rparr>,
             xssProtection = \<lparr>hd_present = truthy xssProtectionH, valid = xssValid,
                              content = content_or xssProtectionH\<rparr>,
             referrerPolicy = \<lparr>hd_present = truthy referrerPolicyH, valid = referrerPolicyValid,
                               content = content_or referrerPolicyH\<rparr>,
             frameOptions = \<lparr>hd_present = truthy xFrameOptionsH, valid = frameOptionsValid,
                             content = content_or xFrameOptionsH\<rparr>,
             infoDisclosure = \<lparr>serverExposed = srvExposed, poweredByExposed = pbExposed\<rparr>\<rparr>\<rparr>)"

subsection \<open>analyzeSSL\<close>

text \<open>
  \<open>analyzeSSL\<close> reads the URL and the response headers, and for an https URL it draws
  \<open>Math.random()\<close>, a number \<open>rnd\<close> with \<open>0 \<le> rnd < 1\<close>, for \<open>daysRemaining\<close>. The draw is
  an argument of the model. The optional fields that the function never sets are left out.
\<close>

record CertificateValidity =
  daysRemaining :: int

record AdditionalInfo =
  certificateIssuer :: string
  protocolVersion :: string
  cipherSuite :: string
  mixedContent :: bool
  certificateValidity :: CertificateValidity

record SSLAnalysis =
  hasSSL :: bool
  validCertificate :: bool
  tlsVersion :: string
  httpsEnabled :: bool
  additionalInfo :: "AdditionalInfo option"

definition opt_includes :: "string option \<Rightarrow> string \<Rightarrow> bool" where
  "opt_includes v needle = (case v of None \<Rightarrow> False | Some s \<Rightarrow> js_includes s needle)"

definition analyzeSSL :: "string \<Rightarrow> Headers \<Rightarrow> real \<Rightarrow> SSLAnalysis" where
  "analyzeSSL url hs rnd =
     (let isHttps = startsWith url ''https://'';
          addInfo =
            (if isHttps
             then (let serverHeader = hs ''server'';
                       strictTransportSecurity = hs ''strict-transport-security'';
                       protoVersion = ''TLS 1.2+'';
                       protoVersion = (if opt_includes serverHeader ''Apache/2.4''
                                       then ''TLS 1.2'' else protoVersion);
                       protoVersion = (if opt_includes serverHeader ''nginx/1.16''
                                       then ''TLS 1.2'' else protoVersion)
                   in Some \<lparr>certificateIssuer =
                               (if opt_includes serverHeader (''Let'' @ [CHR 0x27] @ ''s Encrypt'')
                                then ''Let'' @ [CHR 0x27] @ ''s Encrypt'' else ''Unknown''),
                             protocolVersion = protoVersion,
                             cipherSuite = ''Unknown'',
                             mixedContent = False,
                             certificateValidity =
                               \<lparr>daysRemaining = \<lfloor>rnd * 365\<rfloor> + 30\<rparr>\<rparr>)
             else None)
      in \<lparr>hasSSL = isHttps,
          validCertificate = isHttps,
          tlsVersion = (if isHttps then ''TLS 1.2+'' else ''N/A''),
          httpsEnabled = isHttps,
          additionalInfo = addInfo\<rparr>)"

subsection \<open>detectTechnologies\<close>

text \<open>
  What \<open>detectTechnologies\<close> reads of the parsed document: the \<open>src\<close> of every \<open>script\<close>
  element, the \<open>href\<close> attribute of every \<open>link[href]\<close> element, the \<open>content\<close> of the
  generator \<open>meta\<close> element if there is one, and for a selector whether
  \<open>doc.querySelector(selector)\<close> finds an element.
\<close>

record Document =
  scripts :: "string list"
  links :: "string list"
  generatorContent :: "string option"
  querySelector :: "string \<Rightarrow> bool"

text \<open>
  Every signature is a disjunction of tests of five kinds: \<open>html.includes(x)\<close>,
  \<open>doc.querySelector(x)\<close>, \<open>scripts.some(s => s.src?.includes(x))\<close>,
  \<open>links.some(l => l.getAttribute('href')?.includes(x))\<close> and
  \<open>metaGenerator.includes(x)\<close>. The table lists them in the order of the source.
\<close>

datatype evidence =
  Html string | Selector string | ScriptSrc string | LinkHref string | MetaGenerator string

fun holds :: "string \<Rightarrow> Document \<Rightarrow> evidence \<Rightarrow> bool" where
  "holds html doc (Html x) = js_includes html x"
| "holds html doc (Selector x) = querySelector doc x"
| "holds html doc (ScriptSrc x) = list_ex (\<lambda>s. js_includes s x) (scripts doc)"
| "holds html doc (LinkHref x) = list_ex (\<lambda>l. js_includes l x) (links doc)"
| "holds html doc (MetaGenerator x) =
     js_includes (case generatorContent doc of None \<Rightarrow> [] | Some c \<Rightarrow> c) x"

definition signatures :: "(string \<times> evidence list) list" where
  "signatures =
     [(''React'', [Html ''react'', Selector ''[data-reactroot], [data-react]'',
        ScriptSrc ''react'']),
      (''Vue.js'', [Html ''vue'', Selector ''#app[data-v-app]'', ScriptSrc ''vue'']),
      (''Angular'', [Html ''angular'', Html ''ng-app'', ScriptSrc ''angular'']),
      (''Svelte'', [Html ''svelte'', Selector ''[data-svelte]'', ScriptSrc ''svelte'']),
      (''Ember.js'', [Html ''ember'', ScriptSrc ''ember'']),
      (''Backbone.js'', [Html ''backbone'', ScriptSrc ''backbone'']),
      (''jQuery'', [Html ''jquery'']),
      (''Bootstrap'', [Html ''bootstrap'', Selector ''.container-fluid, .container'',
         LinkHref ''bootstrap'']),
      (''Tailwind CSS'', [Html ''tailwind'',
         Selector (''[class*='' @ [CHR 0x22] @ ''tw-'' @ [CHR 0x22] @ '']'')]),
      (''Bulma'', [Html ''bulma'', Selector ''.is-primary'']),
      (''Foundation'', [Html ''foundation'', Selector ''[data-sticky]'']),
      (''Semantic UI'', [Html ''semantic-ui'', Selector ''.ui.segment'']),
      (''Next.js'', [Selector ''#__next'', Html ''next'']),
      (''Nuxt.js'', [Html ''nuxt'', Selector ''[data-n-head]'']),
      (''Gatsby'', [Html ''gatsby'', Selector ''[data-gatsby]'']),
      (''Vite'', [Html ''vite'', Selector ''[data-vite-plugin]'']),
      (''Webpack'', [Html ''webpack'', ScriptSrc ''webpack'']),
      (''Rollup'', [Html ''rollup'', ScriptSrc ''rollup'']),
      (''WordPress'', [MetaGenerator ''WordPress'', Html ''wp-content'', Html ''wordpress'']),
      (''Shopify'', [MetaGenerator ''Shopify'', Html ''shopify'']),
      (''Drupal'', [MetaGenerator ''Drupal'', Html ''drupal'']),
      (''Joomla'', [MetaGenerator ''Joomla'', Html ''joomla'']),
      (''Magento'', [MetaGenerator ''Magento'', Html ''magento'']),
      (''Docusaurus'', [Html ''docusaurus'', Html ''dokuwiki'']),
      (''Notion'', [Html ''notion'', Html ''notion.so'']),
      (''Wix'', [Html ''wix'', Html ''wixstatic'']),
      (''Squarespace'', [Html ''squarespace'', Html ''squarespace.com'']),
      (''PHP'', [Html ''php'', Html ''.php'', MetaGenerator ''php'']),
      (''ASP.NET'', [Html ''asp.net'', Html ''.aspx'', MetaGenerator ''asp.net'']),
      (''Django'', [Html ''django'', Html ''csrfmiddlewaretoken'']),
      (''Flask'', [Html ''flask'', Html ''flask'']),
      (''Ruby on Rails'', [Html ''rails'', Html ''ruby on rails'', Html ''csrf-token'']),
      (''Node.js/Express'', [Html ''express'', Html ''node.js'', Html ''nodejs'']),
      (''Laravel'', [Html ''laravel'', Html ''laravel'']),
      (''Spring'', [Html ''spring'', Html ''spring boot'']),
      (''FastAPI'', [Html ''fastapi'', Html ''swagger-ui'']),
      (''MongoDB'', [Html ''mongodb'', ScriptSrc ''mongodb'']),
      (''Firebase'', [Html ''firebase'', Html ''google-analytics'']),
      (''Supabase'', [Html ''supabase'', Html ''supabase'']),
      (''Animate.css'', [Html ''animate.css'', Html ''aos'', LinkHref ''animate'']),
      (''Slider/Carousel'', [Html ''swiper'', Html ''slick'']),
      (''Chart.js'', [Html ''chart.js'', ScriptSrc ''chart'']),
      (''D3.js'', [Html ''d3'', ScriptSrc ''d3'']),
      (''Google Analytics'', [Html ''google-analytics'', Html ''gtag'']),
      (''Facebook Pixel'', [Html ''facebook'', Html ''fb-'']),
      (''HubSpot'', [Html ''hubspot'', Html ''hs-'']),
      (''Mailchimp'', [Html ''mailchimp'', Html ''mc-'']),
      (''Stripe'', [Html ''stripe'', Html ''stripe'']),
      (''PayPal'', [Html ''paypal'', Html ''paypal'']),
      (''TypeScript'', [Html ''types'', ScriptSrc ''types'']),
      (''SASS/SCSS'', [Html ''sass'', Html ''scss'', LinkHref ''sass'', LinkHref ''scss'']),
      (''LESS'', [Html ''less'', LinkHref ''less'']),
      (''PostCSS'', [Html ''postcss'', LinkHref ''postcss''])]"

text \<open>\<open>getCurrentVersions\<close>\<close>

definition getCurrentVersions :: "(string \<times> string) list" where
  "getCurrentVersions =
     [(''React'', ''18.2.0''),
      (''Vue.js'', ''3.3.0''),
      (''Angular'', ''17.1.0''),
      (''Svelte'', ''4.2.0''),
      (''Ember.js'', ''5.0.0''),
      (''Backbone.js'', ''1.4.1''),
      (''jQuery'', ''3.7.1''),
      (''Bootstrap'', ''5.3.0''),
      (''Tailwind CSS'', ''3.4.0''),
      (''Bulma'', ''0.9.4''),
      (''Foundation'', ''6.8.1''),
      (''Semantic UI'', ''2.5.0''),
      (''Next.js'', ''14.1.0''),
      (''Nuxt.js'', ''3.8.0''),
      (''Gatsby'', ''5.12.0''),
      (''Vite'', ''5.1.0''),
      (''Webpack'', ''5.89.0''),
      (''Rollup'', ''4.9.0''),
      (''WordPress'', ''6.4.0''),
      (''Shopify'', ''2024-01''),
      (''Drupal'', ''10.3.0''),
      (''Joomla'', ''5.0.0''),
      (''Magento'', ''2.4.7''),
      (''PHP'', ''8.3.0''),
      (''ASP.NET'', ''8.0.0''),
      (''Django'', ''4.2.7''),
      (''Flask'', ''3.0.0''),
      (''Ruby on Rails'', ''7.1.0''),
      (''Node.js/Express'', ''21.5.0''),
      (''Laravel'', ''11.0.0''),
      (''Spring'', ''3.2.0''),
      (''FastAPI'', ''0.109.0''),
      (''MongoDB'', ''7.0.0''),
      (''Firebase'', ''10.7.0''),
      (''Supabase'', ''2.37.0''),
      (''TypeScript'', ''5.3.0''),
      (''SASS/SCSS'', ''1.69.0''),
      (''LESS'', ''4.2.0''),
      (''PostCSS'', ''8.4.0''),
      (''Chart.js'', ''4.4.0''),
      (''D3.js'', ''7.8.0'')]"

text \<open>
  \<open>detectTechnologyVersion\<close>. The patterns per technology, each with its \<open>g\<close> flag:
  React: \<^verbatim>\<open>/react[.\-]?\d+\.\d+\.\d+/\<close>,
    \<^verbatim>\<open>/react[-_]\d+\.\d+\.\d+/\<close>,
    \<^verbatim>\<open>/react[.\-]\d+\.\d+/\<close>,
    \<^verbatim>\<open>/react[-_]\d+\.\d+/\<close>,
    \<^verbatim>\<open>/react\.version[.\-]?\d+\.\d+\.\d+/\<close>,
    \<^verbatim>\<open>/react-dom@\d+\.\d+\.\d+/\<close>,
    \<^verbatim>\<open>/react[.\-]version[:\s]*[\'"]?\d+\.\d+\.\d+/\<close>,
    \<^verbatim>\<open>/react[.\-]v\d+\.\d+\.\d+/g\<close>;
  jQuery: \<^verbatim>\<open>/jquery[.\-]?\d+\.\d+\.\d+/\<close>,
    \<^verbatim>\<open>/jquery[.\-]?\d+\.\d+/\<close>,
    \<^verbatim>\<open>/jquery[.\-]v\d+\.\d+\.\d+/\<close>,
    \<^verbatim>\<open>/jquery[.\-]v\d+\.\d+/\<close>,
    \<^verbatim>\<open>/jquery[.\-]version[.\-]?\d+\.\d+\.\d+/g\<close>;
  Bootstrap: \<^verbatim>\<open>/bootstrap[.\-@]?\d+\.\d+\.\d+/\<close>,
    \<^verbatim>\<open>/bootstrap[.\-@]?\d+\.\d+/\<close>,
    \<^verbatim>\<open>/bootstrap[.\-]v\d+\.\d+\.\d+/\<close>,
    \<^verbatim>\<open>/bootstrap[.\-]version[.\-]?\d+\.\d+\.\d+/g\<close>;
  Vue.js: \<^verbatim>\<open>/vue[.\-@]?\d+\.\d+\.\d+/\<close>,
    \<^verbatim>\<open>/vue[.\-@]?\d+\.\d+/\<close>,
    \<^verbatim>\<open>/vue[.\-]v\d+\.\d+\.\d+/\<close>,
    \<^verbatim>\<open>/vue[.\-]version[.\-]?\d+\.\d+\.\d+/g\<close>;
  Angular: \<^verbatim>\<open>/@angular[./]core[.\-@]?\d+\.\d+\.\d+/\<close>,
    \<^verbatim>\<open>/@angular[./]cli[.\-@]?\d+\.\d+\.\d+/\<close>,
    \<^verbatim>\<open>/angular[.\-]v?\d+\.\d+\.\d+/\<close>,
    \<^verbatim>\<open>/ng[.\-]version[:\s]*[\'"]?\d+\.\d+\.\d+/g\<close>;
  TypeScript: \<^verbatim>\<open>/typescript[.\-@]?\d+\.\d+\.\d+/\<close>,
    \<^verbatim>\<open>/typescript[.\-@]?\d+\.\d+/\<close>,
    \<^verbatim>\<open>/ts[.\-@]?\d+\.\d+\.\d+/g\<close>;
  Node.js/Express: \<^verbatim>\<open>/node[.\-]?\d+\.\d+\.\d+/\<close>,
    \<^verbatim>\<open>/nodejs[.\-]?\d+\.\d+\.\d+/\<close>,
    \<^verbatim>\<open>/express[.\-@]?\d+\.\d+\.\d+/g\<close>.
\<close>

definition versionPatterns :: "(string \<times> (rx \<times> bool) list) list" where
  "versionPatterns =
     [(''React'',
        [(seqs [lit ''react'', opt (one_of [CHR ''.'', CHR ''-'']), rx_plus digit,
           ch (CHR ''.''), rx_plus digit, ch (CHR ''.''), rx_plus digit],
          False),
         (seqs [lit ''react'', one_of [CHR ''-'', CHR ''_''], rx_plus digit, ch (CHR ''.''),
            rx_plus digit, ch (CHR ''.''), rx_plus digit],
          False),
         (seqs [lit ''react'', one_of [CHR ''.'', CHR ''-''], rx_plus digit, ch (CHR ''.''),
            rx_plus digit],
          False),
         (seqs [lit ''react'', one_of [CHR ''-'', CHR ''_''], rx_plus digit, ch (CHR ''.''),
            rx_plus digit],
          False),
         (seqs [lit ''react.version'', opt (one_of [CHR ''.'', CHR ''-'']), rx_plus digit,
            ch (CHR ''.''), rx_plus digit, ch (CHR ''.''), rx_plus digit],
          False),
         (seqs [lit ''react-dom@'', rx_plus digit, ch (CHR ''.''), rx_plus digit,
            ch (CHR ''.''), rx_plus digit],
          False),
         (seqs [lit ''react'', one_of [CHR ''.'', CHR ''-''], lit ''version'',
            Star (one_of_or_space [CHR '':'']), opt (one_of [CHR 0x27, CHR 0x22]),
            rx_plus digit, ch (CHR ''.''), rx_plus digit, ch (CHR ''.''), rx_plus digit],
          False),
         (seqs [lit ''react'', one_of [CHR ''.'', CHR ''-''], ch (CHR ''v''), rx_plus digit,
            ch (CHR ''.''), rx_plus digit, ch (CHR ''.''), rx_plus digit],
          True)]),
      (''jQuery'',
        [(seqs [lit ''jquery'', opt (one_of [CHR ''.'', CHR ''-'']), rx_plus digit,
           ch (CHR ''.''), rx_plus digit, ch (CHR ''.''), rx_plus digit],
          False),
         (seqs [lit ''jquery'', opt (one_of [CHR ''.'', CHR ''-'']), rx_plus digit,
            ch (CHR ''.''), rx_plus digit],
          False),
         (seqs [lit ''jquery'', one_of [CHR ''.'', CHR ''-''], ch (CHR ''v''), rx_plus digit,
            ch (CHR ''.''), rx_plus digit, ch (CHR ''.''), rx_plus digit],
          False),
         (seqs [lit ''jquery'', one_of [CHR ''.'', CHR ''-''], ch (CHR ''v''), rx_plus digit,
            ch (CHR ''.''), rx_plus digit],
          False),
         (seqs [lit ''jquery'', one_of [CHR ''.'', CHR ''-''], lit ''version'',
            opt (one_of [CHR ''.'', CHR ''-'']), rx_plus digit, ch (CHR ''.''), rx_plus digit,
            ch (CHR ''.''), rx_plus digit],
          True)]),
      (''Bootstrap'',
        [(seqs [lit ''bootstrap'', opt (one_of [CHR ''.'', CHR ''-'', CHR ''@'']),
           rx_plus digit, ch (CHR ''.''), rx_plus digit, ch (CHR ''.''), rx_plus digit],
          False),
         (seqs [lit ''bootstrap'', opt (one_of [CHR ''.'', CHR ''-'', CHR ''@'']),
            rx_plus digit, ch (CHR ''.''), rx_plus digit],
          False),
         (seqs [lit ''bootstrap'', one_of [CHR ''.'', CHR ''-''], ch (CHR ''v''),
            rx_plus digit, ch (CHR ''.''), rx_plus digit, ch (CHR ''.''), rx_plus digit],
          False),
         (seqs [lit ''bootstrap'', one_of [CHR ''.'', CHR ''-''], lit ''version'',
            opt (one_of [CHR ''.'', CHR ''-'']), rx_plus digit, ch (CHR ''.''), rx_plus digit,
            ch (CHR ''.''), rx_plus digit],
          True)]),
      (''Vue.js'',
        [(seqs [lit ''vue'', opt (one_of [CHR ''.'', CHR ''-'', CHR ''@'']), rx_plus digit,
           ch (CHR ''.''), rx_plus digit, ch (CHR ''.''), rx_plus digit],
          False),
         (seqs [lit ''vue'', opt (one_of [CHR ''.'', CHR ''-'', CHR ''@'']), rx_plus digit,
            ch (CHR ''.''), rx_plus digit],
          False),
         (seqs [lit ''vue'', one_of [CHR ''.'', CHR ''-''], ch (CHR ''v''), rx_plus digit,
            ch (CHR ''.''), rx_plus digit, ch (CHR ''.''), rx_plus digit],
          False),
         (seqs [lit ''vue'', one_of [CHR ''.'', CHR ''-''], lit ''version'',
            opt (one_of [CHR ''.'', CHR ''-'']), rx_plus digit, ch (CHR ''.''), rx_plus digit,
            ch (CHR ''.''), rx_plus digit],
          True)]),
      (''Angular'',
        [(seqs [lit ''@angular'', one_of [CHR ''.'', CHR ''/''], lit ''core'',
           opt (one_of [CHR ''.'', CHR ''-'', CHR ''@'']), rx_plus digit, ch (CHR ''.''),
           rx_plus digit, ch (CHR ''.''), rx_plus digit],
          False),
         (seqs [lit ''@angular'', one_of [CHR ''.'', CHR ''/''], lit ''cli'',
            opt (one_of [CHR ''.'', CHR ''-'', CHR ''@'']), rx_plus digit, ch (CHR ''.''),
            rx_plus digit, ch (CHR ''.''), rx_plus digit],
          False),
         (seqs [lit ''angular'', one_of [CHR ''.'', CHR ''-''], opt (ch (CHR ''v'')),
            rx_plus digit, ch (CHR ''.''), rx_plus digit, ch (CHR ''.''), rx_plus digit],
          False),
         (seqs [lit ''ng'', one_of [CHR ''.'', CHR ''-''], lit ''version'',
            Star (one_of_or_space [CHR '':'']), opt (one_of [CHR 0x27, CHR 0x22]),
            rx_plus digit, ch (CHR ''.''), rx_plus digit, ch (CHR ''.''), rx_plus digit],
          True)]),
      (''TypeScript'',
        [(seqs [lit ''typescript'', opt (one_of [CHR ''.'', CHR ''-'', CHR ''@'']),
           rx_plus digit, ch (CHR ''.''), rx_plus digit, ch (CHR ''.''), rx_plus digit],
          False),
         (seqs [lit ''typescript'', opt (one_of [CHR ''.'', CHR ''-'', CHR ''@'']),
            rx_plus digit, ch (CHR ''.''), rx_plus digit],
          False),
         (seqs [lit ''ts'', opt (one_of [CHR ''.'', CHR ''-'', CHR ''@'']), rx_plus digit,
            ch (CHR ''.''), rx_plus digit, ch (CHR ''.''), rx_plus digit],
          True)]),
      (''Node.js/Express'',
        [(seqs [lit ''node'', opt (one_of [CHR ''.'', CHR ''-'']), rx_plus digit,
           ch (CHR ''.''), rx_plus digit, ch (CHR ''.''), rx_plus digit],
          False),
         (seqs [lit ''nodejs'', opt (one_of [CHR ''.'', CHR ''-'']), rx_plus digit,
            ch (CHR ''.''), rx_plus digit, ch (CHR ''.''), rx_plus digit],
          False),
         (seqs [lit ''express'', opt (one_of [CHR ''.'', CHR ''-'', CHR ''@'']), rx_plus digit,
            ch (CHR ''.''), rx_plus digit, ch (CHR ''.''), rx_plus digit],
          True)])]"

text \<open>
  \<^verbatim>\<open>/\d+\.\d+\.\d+|\d+\.\d+/\<close> applied to a match: the version is returned when the match
  and the version text are truthy.
\<close>

definition version_rx :: rx where
  "version_rx =
     alts [seqs [rx_plus digit, ch (CHR ''.''), rx_plus digit, ch (CHR ''.''), rx_plus digit],
           seqs [rx_plus digit, ch (CHR ''.''), rx_plus digit]]"

definition version_in :: "string \<Rightarrow> string option" where
  "version_in m =
     (if m \<noteq> []
      then (case js_match version_rx m of
              None \<Rightarrow> None
            | Some v \<Rightarrow> if v \<noteq> [] then Some v else None)
      else None)"

fun first_some :: "('a \<Rightarrow> 'b option) \<Rightarrow> 'a list \<Rightarrow> 'b option" where
  "first_some f [] = None"
| "first_some f (x # xs) = (case f x of Some y \<Rightarrow> Some y | None \<Rightarrow> first_some f xs)"

text \<open>
  One round of the loop over the patterns: the first match, and for a pattern with the
  \<open>g\<close> flag the matches of \<open>matchAll\<close> after it.
\<close>

definition try_pattern :: "string \<Rightarrow> rx \<times> bool \<Rightarrow> string option" where
  "try_pattern htmlLower pg =
     (case pg of (p, g) \<Rightarrow>
        (case (case js_match p htmlLower of None \<Rightarrow> None | Some m \<Rightarrow> version_in m) of
           Some v \<Rightarrow> Some v
         | None \<Rightarrow> if g then first_some version_in (all_matches p htmlLower) else None))"

text \<open>
  The generic pattern for a technology without patterns of its own, built from the cleaned
  name: \<^verbatim>\<open>name[.\-@_\s]*v?(\d+\.\d+(?:\.\d+)?)\<close> with the \<open>g\<close> flag. The pattern text
  comes from a template literal, where \<^verbatim>\<open>\-\<close> is a plain \<open>-\<close>, so that the class holds
  the range from \<open>.\<close> to \<open>@\<close>, the underscore and white space. The group is kept when it
  matches \<^verbatim>\<open>/^\d+\.\d+(?:\.\d+)?$/\<close>.
\<close>

definition generic_prefix :: "string \<Rightarrow> rx" where
  "generic_prefix cleanTechName =
     seqs [lit cleanTechName, Star (range_class (CHR ''.'') (CHR ''@'') [CHR ''_'']),
           opt (ch (CHR ''v''))]"

definition generic_group :: rx where
  "generic_group =
     seqs [rx_plus digit, ch (CHR ''.''), rx_plus digit,
           opt (seqs [ch (CHR ''.''), rx_plus digit])]"

definition whole_version :: "string \<Rightarrow> bool" where
  "whole_version s \<longleftrightarrow> [] \<in> set (run generic_group s)"

definition clean_name :: "string \<Rightarrow> string" where
  "clean_name techName = filter (\<lambda>c. CHR ''a'' \<le> c \<and> c \<le> CHR ''z'') (toLowerCase techName)"

text \<open>
  \<open>detectTechnologyVersion\<close> is called with the names of the signature table only; none of
  them is a member of \<open>Object.prototype\<close>, and the lookup of its patterns is a lookup in
  the table.
\<close>

definition detectTechnologyVersion :: "string \<Rightarrow> string \<Rightarrow> string option" where
  "detectTechnologyVersion html techName =
     (let htmlLower = toLowerCase html
      in if \<not> js_includes htmlLower (clean_name techName) then None
         else case map_of versionPatterns techName of
                Some ps \<Rightarrow> first_some (try_pattern htmlLower) ps
              | None \<Rightarrow>
                  first_some (\<lambda>g. if g \<noteq> [] \<and> whole_version g then Some g else None)
                    (all_groups (generic_prefix (clean_name techName)) generic_group htmlLower))"

text \<open>
  \<open>detectTechnologies\<close>: the \<open>Set\<close> keeps the names in the order of insertion, without
  repetition; \<open>Array.from(technologies).sort()\<close> orders them as strings, by code units.
\<close>

definition set_add :: "string \<Rightarrow> string list \<Rightarrow> string list" where
  "set_add x xs = (if x \<in> set xs then xs else xs @ [x])"

definition detected_names :: "string \<Rightarrow> Document \<Rightarrow> string list" where
  "detected_names html doc =
     fold (\<lambda>sig acc. case sig of (techName, ev) \<Rightarrow>
             if list_ex (holds html doc) ev then set_add techName acc else acc)
          signatures []"

definition detectTechnologies :: "string \<Rightarrow> Document \<Rightarrow> DetectedTechnology list" where
  "detectTechnologies html doc =
     map (\<lambda>techName.
            \<lparr>tech_name = techName,
             tech_version = detectTechnologyVersion html techName,
             currentVersion = map_of getCurrentVersions techName\<rparr>)
         (sort (detected_names html doc))"

subsection \<open>The analysis steps of handleScrape\<close>

text \<open>
  Steps 4 and 5 of \<open>handleScrape\<close>: the four analyses of one fetched page, with the
  \<open>Math.random()\<close> draw of \<open>analyzeSSL\<close> as an argument.
\<close>

record PageAnalysis =
  pa_technologies :: "DetectedTechnology list"
  pa_securityHeaders :: SecurityHeaderReport
  pa_sslAnalysis :: SSLAnalysis
  pa_vulnerableTechnologies :: "VulnerableTechnology list"

definition analyze_page :: "string \<Rightarrow> string \<Rightarrow> Document \<Rightarrow> Headers \<Rightarrow> real \<Rightarrow> PageAnalysis" where
  "analyze_page url html doc hs rnd =
     (let techs = detectTechnologies html doc;
          securityHdrs = analyzeSecurityHeaders hs;
          ssl = analyzeSSL url hs rnd;
          vulnerable = detectVulnerableTechnologies techs html
      in \<lparr>pa_technologies = techs, pa_securityHeaders = securityHdrs, pa_sslAnalysis = ssl,
          pa_vulnerableTechnologies = vulnerable\<rparr>)"

section \<open>Specification-side predicates\<close>

text \<open>
  All seven tracked headers present at excellent quality: a CSP naming \<open>default-src\<close>,
  \<open>script-src\<close> and \<open>style-src\<close>, without \<open>unsafe-inline\<close> and with a nonce or sha256
  token; HSTS with \<open>max-age=\<close>, \<open>includeSubDomains\<close> and \<open>preload\<close>; X-Frame-Options
  \<open>DENY\<close> or \<open>SAMEORIGIN\<close>; the other four headers with a value that is not empty.
\<close>

definition excellent_headers :: "SecurityHeaders \<Rightarrow> bool" where
  "excellent_headers h \<longleftrightarrow>
     (\<exists>csp. h ''content-security-policy'' = Some csp
        \<and> js_includes csp ''default-src'' \<and> js_includes csp ''script-src''
        \<and> js_includes csp ''style-src'' \<and> \<not> js_includes csp ''unsafe-inline''
        \<and> (js_includes csp ''nonce-'' \<or> js_includes csp ''sha256-''))
   \<and> (\<exists>hsts. h ''strict-transport-security'' = Some hsts
        \<and> js_includes hsts ''max-age='' \<and> js_includes hsts ''includeSubDomains''
        \<and> js_includes hsts ''preload'')
   \<and> (\<exists>xfo. h ''x-frame-options'' = Some xfo
        \<and> (js_includes xfo ''DENY'' \<or> js_includes xfo ''SAMEORIGIN''))
   \<and> truthy (h ''x-content-type-options'')
   \<and> truthy (h ''referrer-policy'')
   \<and> truthy (h ''permissions-policy'')
   \<and> truthy (h ''x-xss-protection'')"

definition example_headers :: SecurityHeaders where
  "example_headers = map_of
     [(''content-security-policy'',
         ''default-src 'self'; script-src 'nonce-r4nd0m'; style-src 'self';''),
      (''strict-transport-security'', ''max-age=31536000; includeSubDomains; preload''),
      (''x-frame-options'', ''DENY''),
      (''x-content-type-options'', ''nosniff''),
      (''referrer-policy'', ''no-referrer''),
      (''permissions-policy'', ''geolocation=()''),
      (''x-xss-protection'', ''1; mode=block'')]"

text \<open>
  The findings the filter keeps, in the words of the claim: the lowercased text contains
  none of the service names, none of the development markers, and is not an
  \<open>innerhtml\<close> text that also contains one of the three safety words.
\<close>

definition service_terms :: "string list" where
  "service_terms =
     [''google'', ''gtm'', ''tag manager'', ''maps api'', ''analytics'', ''firebase'', ''gapi'']"

definition development_terms :: "string list" where
  "development_terms = [''console.log'', ''debug mode'', ''development'']"

definition safety_terms :: "string list" where
  "safety_terms = [''hardcoded'', ''safe'', ''sanitized'']"

definition kept_finding :: "VulnerableTechnology \<Rightarrow> bool" where
  "kept_finding v \<longleftrightarrow>
     (\<forall>t \<in> set service_terms. \<not> js_includes (toLowerCase (vulnerability v)) t)
   \<and> (\<forall>t \<in> set development_terms. \<not> js_includes (toLowerCase (vulnerability v)) t)
   \<and> \<not> (js_includes (toLowerCase (vulnerability v)) ''innerhtml''
        \<and> (\<exists>t \<in> set safety_terms. js_includes (toLowerCase (vulnerability v)) t))"

definition finding_a :: VulnerableTechnology where
  "finding_a = \<lparr>name = ''Tracker'', version = ''1.0'',
      vulnerability = ''Remote code execution in Analytics loader'', severity = Critical,
      lineNumbers = None, recommendation = None\<rparr>"

definition finding_b :: VulnerableTechnology where
  "finding_b = \<lparr>name = ''PHP'', version = ''5.6'',
      vulnerability = ''PHP multiple vulnerabilities'', severity = Critical,
      lineNumbers = None, recommendation = None\<rparr>"

text \<open>Inputs and table entries named by the claims about the code patterns.\<close>

definition jquery_html_nombre :: string where
  "jquery_html_nombre = ''$('' @ [CHR 0x22] @ ''#x'' @ [CHR 0x22] @ '').html(nombre)''"

definition static_innerHTML :: string where
  "static_innerHTML = ''div.innerHTML = '' @ [CHR 0x22] @ ''<b>static</b>'' @ [CHR 0x22]"

definition both_snippets :: string where
  "both_snippets = jquery_html_nombre @ [CHR 0x0A] @ static_innerHTML"

definition vp3 :: VulnerablePattern where "vp3 = vulnerablePatterns ! 2"
definition vp5 :: VulnerablePattern where "vp5 = vulnerablePatterns ! 4"
definition vp8 :: VulnerablePattern where "vp8 = vulnerablePatterns ! 7"
definition vp9 :: VulnerablePattern where "vp9 = vulnerablePatterns ! 8"

text \<open>Two robots.txt bodies: a full-site and a path-specific disallow for every agent.\<close>

definition wildcard_full :: string where
  "wildcard_full = ''User-agent: *'' @ [CHR 0x0A] @ ''Disallow: /''"

definition wildcard_admin :: string where
  "wildcard_admin = ''User-agent: *'' @ [CHR 0x0A] @ ''Disallow: /admin''"

text \<open>
  The integer the HSTS check parses: \<open>first_max_age v ds\<close> says that \<open>ds\<close> is the run
  of digits that follows the first \<open>max-age=\<close> of \<open>v\<close> that has a digit after it.
  \<open>leftmost r s pre rest t\<close> says that the leftmost match of \<open>r\<close> in \<open>s\<close> starts after
  \<open>pre\<close> and leaves \<open>t\<close> of \<open>rest\<close>.
\<close>

definition first_max_age :: "string \<Rightarrow> string \<Rightarrow> bool" where
  "first_max_age v ds \<longleftrightarrow>
     (\<exists>pre post. v = pre @ ''max-age='' @ ds @ post
        \<and> ds \<noteq> [] \<and> list_all is_digit ds
        \<and> (post = [] \<or> \<not> is_digit (hd post))
        \<and> (\<forall>p d q. v = p @ ''max-age='' @ d # q \<and> is_digit d \<longrightarrow> length pre \<le> length p))"

definition leftmost :: "rx \<Rightarrow> string \<Rightarrow> string \<Rightarrow> string \<Rightarrow> string \<Rightarrow> bool" where
  "leftmost r s pre rest t \<longleftrightarrow>
     s = pre @ rest \<and> (\<exists>ts. run r rest = t # ts)
     \<and> (\<forall>pre' rest'. s = pre' @ rest' \<and> length pre' < length pre \<longrightarrow> run r rest' = [])"

text \<open>
  \<open>without_days\<close> forgets the one field that \<open>analyzeSSL\<close> draws at random.
  \<open>stateless_lines\<close> are the line numbers (from 1) of the lines a pattern matches, each
  line tested on its own.
\<close>

definition without_days :: "SSLAnalysis \<Rightarrow> SSLAnalysis" where
  "without_days a =
     a\<lparr>additionalInfo :=
         map_option (\<lambda>i. i\<lparr>certificateValidity := \<lparr>daysRemaining = 0\<rparr>\<rparr>) (additionalInfo a)\<rparr>"

definition stateless_lines :: "rx \<Rightarrow> string \<Rightarrow> nat list" where
  "stateless_lines p html =
     map (\<lambda>e. snd e + 1)
       (filter (\<lambda>e. regex_test p (fst e))
          (zip (split_lines html) [0..<length (split_lines html)]))"

section \<open>Basic facts\<close>

lemma Math_round_of_int [simp]: "Math_round (of_int n) = n"
  unfolding Math_round_def by linarith

lemma js_ge_mono: "js_ge s a \<Longrightarrow> b \<le> a \<Longrightarrow> js_ge s b"
  by (cases s) auto

lemma risk_labels_distinct:
  "Bajo \<noteq> Medio" "Bajo \<noteq> Alto" "Bajo \<noteq> Critico" "Medio \<noteq> Alto" "Medio \<noteq> Critico"
  "Alto \<noteq> Critico"
  by (simp_all add: Bajo_def Medio_def Alto_def Critico_def)

lemma penalty_magnitude:
  "- evaluateVulnerabilitiesRealistically v =
     min ((if critical v > 0 then 25 * min (critical v) 3 else 0)
        + (if high v > 0 then 12 * min (high v) 5 else 0)
        + (if medium v > 0 then 5 * min (medium v) 8 else 0)
        + (if low v > 0 then 2 * min (low v) 10 else 0)) 30"
  by (simp add: evaluateVulnerabilitiesRealistically_def Let_def PENALTY_CRITICAL_def
      PENALTY_HIGH_def PENALTY_MEDIUM_def PENALTY_LOW_def)

subsection \<open>Strings\<close>

lemma js_includes_iff: "js_includes s n \<longleftrightarrow> (\<exists>pre post. s = pre @ n @ post)"
proof (induction s)
  case Nil
  then show ?case by auto
next
  case (Cons c cs)
  show ?case
  proof
    assume "js_includes (c # cs) n"
    then consider "prefix n (c # cs)" | "js_includes cs n" by auto
    then show "\<exists>pre post. c # cs = pre @ n @ post"
    proof cases
      case 1
      then obtain post where "c # cs = n @ post" by (auto simp: prefix_def)
      then have "c # cs = [] @ n @ post" by simp
      then show ?thesis by blast
    next
      case 2
      with Cons.IH obtain pre post where "cs = pre @ n @ post" by blast
      then have "c # cs = (c # pre) @ n @ post" by simp
      then show ?thesis by blast
    qed
  next
    assume "\<exists>pre post. c # cs = pre @ n @ post"
    then obtain pre post where e: "c # cs = pre @ n @ post" by blast
    show "js_includes (c # cs) n"
    proof (cases pre)
      case Nil
      with e have "prefix n (c # cs)" by (auto simp: prefix_def)
      then show ?thesis by simp
    next
      case (Cons d ds)
      with e have "cs = ds @ n @ post" by simp
      with Cons.IH have "js_includes cs n" by blast
      then show ?thesis by simp
    qed
  qed
qed

lemma js_includes_part: "js_includes s (a @ n @ b) \<Longrightarrow> js_includes s n"
proof -
  assume "js_includes s (a @ n @ b)"
  then obtain pre post where "s = pre @ (a @ n @ b) @ post" unfolding js_includes_iff by blast
  then have "s = (pre @ a) @ n @ (b @ post)" by simp
  then show ?thesis unfolding js_includes_iff by blast
qed

lemma js_includes_nonempty: "js_includes s n \<Longrightarrow> n \<noteq> [] \<Longrightarrow> s \<noteq> []"
  by (cases s) auto

subsection \<open>Scoring\<close>

lemma Math_round_numeral [simp]: "Math_round (numeral k) = numeral k"
  using Math_round_of_int [of "numeral k"] by simp

lemma Math_round_0 [simp]: "Math_round 0 = 0"
  using Math_round_of_int [of 0] by simp

lemma excellent_score:
  assumes "excellent_headers h"
  shows "evaluateHeadersRealistically h ctx = \<lparr>present = 89, missing = 0, score = 89\<rparr>"
proof -
  from assms obtain csp hsts xfo where
    csp: "h ''content-security-policy'' = Some csp" "js_includes csp ''default-src''"
      "js_includes csp ''script-src''" "js_includes csp ''style-src''"
      "\<not> js_includes csp ''unsafe-inline''"
      "js_includes csp ''nonce-'' \<or> js_includes csp ''sha256-''"
    and hsts: "h ''strict-transport-security'' = Some hsts" "js_includes hsts ''max-age=''"
      "js_includes hsts ''includeSubDomains''" "js_includes hsts ''preload''"
    and xfo: "h ''x-frame-options'' = Some xfo"
      "js_includes xfo ''DENY'' \<or> js_includes xfo ''SAMEORIGIN''"
    and rest: "truthy (h ''x-content-type-options'')" "truthy (h ''referrer-policy'')"
      "truthy (h ''permissions-policy'')" "truthy (h ''x-xss-protection'')"
    unfolding excellent_headers_def by blast
  have ui: "\<not> js_includes csp (CHR 0x27 # ''unsafe-inline'' @ [CHR 0x27])"
    using csp(5) js_includes_part [of csp "[CHR 0x27]" "''unsafe-inline''" "[CHR 0x27]"] by auto
  have q1: "evaluateCSPQuality csp = 1"
    using csp ui by (auto simp: evaluateCSPQuality_def Let_def)
  have q2: "evaluateHSTSQuality hsts = 1"
    using hsts by (simp add: evaluateHSTSQuality_def Let_def)
  have q3: "evaluateHeaderQuality ''x-frame-options'' xfo = 1"
    using xfo by (auto simp: evaluateHeaderQuality_def)
  have t1: "truthy (h ''content-security-policy'')"
    using csp(1,2) js_includes_nonempty [of csp "''default-src''"] by (simp add: truthy_def)
  have t2: "truthy (h ''strict-transport-security'')"
    using hsts(1,2) js_includes_nonempty [of hsts "''max-age=''"] by (simp add: truthy_def)
  have t3: "truthy (h ''x-frame-options'')"
    using xfo js_includes_nonempty [of xfo "''DENY''"] js_includes_nonempty [of xfo "''SAMEORIGIN''"]
    by (auto simp: truthy_def)
  have other: "\<And>n. truthy (h n) \<Longrightarrow> n \<noteq> ''content-security-policy'' \<Longrightarrow>
     n \<noteq> ''strict-transport-security'' \<Longrightarrow> n \<noteq> ''x-frame-options'' \<Longrightarrow>
     evaluateHeaderQuality n (the (h n)) = 1"
    by (auto simp: evaluateHeaderQuality_def truthy_def split: option.splits)
  show ?thesis
    using t1 t2 t3 rest q1 q2 q3 csp(1) hsts(1) xfo(1) other
    by (simp add: evaluateHeadersRealistically_def HEADER_WEIGHTS_def header_step_def
        evaluateHeaderQuality_def)
qed

lemma bonus_nonneg: "0 \<le> calculateContextualBonus h v ctx"
  by (auto simp: calculateContextualBonus_def Let_def split: option.splits)

lemma financial_baseline: "js_get SITE_BASELINES ''financial'' = Own 95"
  by (simp add: js_get_def SITE_BASELINES_def)

lemma example_headers_excellent: "excellent_headers example_headers"
  unfolding excellent_headers_def example_headers_def
  by (simp add: truthy_def)

subsection \<open>The false-positive filter\<close>

lemma kept_finding_unfold:
  "kept_finding x \<longleftrightarrow>
      \<not> (js_includes (toLowerCase (vulnerability x)) ''google'' \<or>
         js_includes (toLowerCase (vulnerability x)) ''gtm'' \<or>
         js_includes (toLowerCase (vulnerability x)) ''tag manager'' \<or>
         js_includes (toLowerCase (vulnerability x)) ''maps api'' \<or>
         js_includes (toLowerCase (vulnerability x)) ''analytics'' \<or>
         js_includes (toLowerCase (vulnerability x)) ''firebase'' \<or>
         js_includes (toLowerCase (vulnerability x)) ''gapi'')
    \<and> \<not> (js_includes (toLowerCase (vulnerability x)) ''console.log'' \<or>
         js_includes (toLowerCase (vulnerability x)) ''debug mode'' \<or>
         js_includes (toLowerCase (vulnerability x)) ''development'')
    \<and> \<not> (js_includes (toLowerCase (vulnerability x)) ''innerhtml'' \<and>
         (js_includes (toLowerCase (vulnerability x)) ''hardcoded'' \<or>
          js_includes (toLowerCase (vulnerability x)) ''safe'' \<or>
          js_includes (toLowerCase (vulnerability x)) ''sanitized''))"
  unfolding kept_finding_def service_terms_def development_terms_def safety_terms_def
  by (simp only: list.set ball_simps bex_simps Set.ball_empty Set.bex_empty) blast

lemma finding_a_mentions_analytics:
  "js_includes (toLowerCase (vulnerability finding_a)) ''analytics''"
  by code_simp

lemma filter_example: "filterFalsePositives [finding_a, finding_b] = [finding_b]"
  by code_simp

subsection \<open>Site-type lookup\<close>

lemma unknown_site_type_strict:
  assumes "s \<notin> fst ` set BASELINES" and "s \<notin> set Object_prototype_keys"
  shows "analyzeSite s hs v = Inl (Error (''Tipo de sitio no reconocido: '' @ s))"
proof -
  from assms(1) have "map_of BASELINES s = None" by (simp add: map_of_eq_None_iff)
  with assms(2) have "js_get BASELINES s = Undefined" by (simp add: js_get_def)
  then show ?thesis by (simp add: analyzeSite_def)
qed

lemma unknown_site_type_permissive:
  assumes "s \<notin> fst ` set SITE_BASELINES" and "s \<notin> set Object_prototype_keys"
  shows "baseline (details (calculateRealisticScore hs v (Some s) ctx)) = Points 80"
proof -
  from assms(1) have "map_of SITE_BASELINES s = None" by (simp add: map_of_eq_None_iff)
  with assms(2) have "js_get SITE_BASELINES s = Undefined" by (simp add: js_get_def)
  then show ?thesis by (simp add: calculateRealisticScore_def Let_def SITE_BASELINES_DEFAULT_def)
qed

lemma constructor_lookup:
  "js_get SITE_BASELINES ''constructor'' = Inherited"
  "js_get BASELINES ''constructor'' = Inherited"
  by (simp_all add: js_get_def SITE_BASELINES_def BASELINES_def Object_prototype_keys_def)

subsection \<open>The matcher\<close>

lemma star_rest_code [code]:
  "star_rest a s [] = []"
  "star_rest a s (t # ts) = (if length t < length s then run (Star a) t else []) @ star_rest a s ts"
  by (simp_all add: star_rest_def)

lemma run_code [code]:
  "run (Chr p) s = (case s of [] \<Rightarrow> [] | c # cs \<Rightarrow> if p c then [cs] else [])"
  "run Eps s = [s]"
  "run (Seq a b) s = concat (map (run b) (run a s))"
  "run (Alt a b) s = run a s @ run b s"
  "run (Star a) s = star_rest a s (run a s) @ [s]"
  by (simp_all add: star_rest_def run.simps(5))

lemma run_Star_mem:
  "t \<in> set (run (Star a) s) \<longleftrightarrow>
     t = s \<or> (\<exists>m \<in> set (run a s). length m < length s \<and> t \<in> set (run (Star a) m))"
  by (subst run.simps) auto

lemma run_append: "t \<in> set (run r s) \<Longrightarrow> t @ u \<in> set (run r (s @ u))"
proof (induction r s arbitrary: t rule: run.induct)
  case (1 p s)
  show ?case
  proof (cases s)
    case Nil
    with "1.prems" show ?thesis by simp
  next
    case (Cons c cs)
    with "1.prems" have "p c" "t = cs" by (auto split: if_splits)
    with Cons show ?thesis by simp
  qed
next
  case (2 s)
  then show ?case by simp
next
  case (3 a b s)
  from "3.prems" obtain m where m: "m \<in> set (run a s)" "t \<in> set (run b m)" by auto
  from "3.IH"(1) [OF m(1)] have a: "m @ u \<in> set (run a (s @ u))" .
  from "3.IH"(2) [OF m(1) m(2)] have b: "t @ u \<in> set (run b (m @ u))" .
  show ?case using a b by auto
next
  case (4 a b s)
  from "4.prems" have "t \<in> set (run a s) \<or> t \<in> set (run b s)" by simp
  then show ?case using "4.IH" by auto
next
  case (5 a s)
  from "5.prems" consider "t = s"
    | m where "m \<in> set (run a s)" "length m < length s" "t \<in> set (run (Star a) m)"
    unfolding run_Star_mem [of t a s] by blast
  then show ?case
  proof cases
    case 1
    then show ?thesis unfolding run_Star_mem [of "t @ u" a "s @ u"] by simp
  next
    case 2
    from "5.IH"(1) [OF 2(1)] have a: "m @ u \<in> set (run a (s @ u))" .
    from "5.IH"(2) [OF 2(1) 2(2) 2(3)] have b: "t @ u \<in> set (run (Star a) (m @ u))" .
    from 2(2) have c: "length (m @ u) < length (s @ u)" by simp
    show ?thesis
      unfolding run_Star_mem [of "t @ u" a "s @ u"] using a b c by blast
  qed
qed

lemma search_from_append:
  "run r s \<noteq> [] \<Longrightarrow> search_from r i (pre @ s) \<noteq> None"
proof (induction pre arbitrary: i)
  case Nil
  then show ?case by (cases s; cases "run r s") auto
next
  case (Cons c pre)
  show ?case
  proof (cases "run r (c # pre @ s)")
    case Nil
    with Cons show ?thesis by simp
  next
    case (Cons a list)
    then show ?thesis by simp
  qed
qed

lemma match_anywhere:
  assumes "run r x \<noteq> []" and "js_includes html x"
  shows "search_from r 0 html \<noteq> None"
proof -
  from assms(2) obtain pre post where h: "html = pre @ x @ post"
    unfolding js_includes_iff by blast
  from assms(1) obtain t where "t \<in> set (run r x)" by (cases "run r x") auto
  then have "t @ post \<in> set (run r (x @ post))" by (rule run_append)
  then have "run r (x @ post) \<noteq> []" by auto
  then show ?thesis unfolding h by (rule search_from_append)
qed

subsection \<open>Findings of detectVulnerableTechnologies\<close>

lemma pattern_finding_emitted:
  assumes "vp \<in> set vulnerablePatterns" and "search_from (pattern vp) 0 html \<noteq> None"
  shows "\<exists>f \<in> set (detectVulnerableTechnologies techs html).
           name f = ''JavaScript Code Pattern''
         \<and> vulnerability f = vp_vulnerability vp @ '' - '' @ exploitation vp
         \<and> severity f = vp_severity vp
         \<and> lineNumbers f = Some (find_lines (pattern vp) html)"
proof -
  from assms(2) obtain f where f: "pattern_finding vp html = [f]"
    "name f = ''JavaScript Code Pattern''"
    "vulnerability f = vp_vulnerability vp @ '' - '' @ exploitation vp"
    "severity f = vp_severity vp" "lineNumbers f = Some (find_lines (pattern vp) html)"
    by (simp add: pattern_finding_def Let_def)
  from f(1) assms(1) have "f \<in> set (detectVulnerableTechnologies techs html)"
    unfolding detectVulnerableTechnologies_def by (auto intro!: bexI [of _ vp])
  with f show ?thesis by blast
qed

lemma pattern_5_nombre: "run pattern_5 jquery_html_nombre \<noteq> []"
  by code_simp

lemma pattern_3_assign: "run pattern_3 ''innerHTML ='' \<noteq> []"
  by code_simp

lemma vp5: "vp5 \<in> set vulnerablePatterns" "pattern vp5 = pattern_5" "vp_severity vp5 = High"
  "prefix ''jQuery XSS via .html()'' (vp_vulnerability vp5 @ '' - '' @ exploitation vp5)"
  by (simp_all add: vp5_def vulnerablePatterns_def)

lemma vp3: "vp3 \<in> set vulnerablePatterns" "pattern vp3 = pattern_3" "vp_severity vp3 = Medium"
  "prefix ''Potential XSS via innerHTML assignment'' (vp_vulnerability vp3 @ '' - '' @ exploitation vp3)"
  by (simp_all add: vp3_def vulnerablePatterns_def)

lemma tally_generic:
  "fold (\<lambda>vuln normalized.
             case severity vuln of
               Critical \<Rightarrow> normalized\<lparr>critical := critical normalized + 1\<rparr>
             | High \<Rightarrow> normalized\<lparr>high := high normalized + 1\<rparr>
             | Medium \<Rightarrow> normalized\<lparr>medium := medium normalized + 1\<rparr>
             | Low \<Rightarrow> normalized\<lparr>low := low normalized + 1\<rparr>) vs acc
   = \<lparr>critical = critical acc + int (length (filter (\<lambda>v. severity v = Critical) vs)),
      high = high acc + int (length (filter (\<lambda>v. severity v = High) vs)),
      medium = medium acc + int (length (filter (\<lambda>v. severity v = Medium) vs)),
      low = low acc + int (length (filter (\<lambda>v. severity v = Low) vs))\<rparr>"
proof (induction vs arbitrary: acc)
  case Nil
  then show ?case by simp
next
  case (Cons v vs)
  show ?case by (cases "severity v") (simp_all add: Cons.IH)
qed

lemma normalizeVulnerabilities_counts:
  "normalizeVulnerabilities vs =
     \<lparr>critical = int (length (filter (\<lambda>v. severity v = Critical) vs)),
      high = int (length (filter (\<lambda>v. severity v = High) vs)),
      medium = int (length (filter (\<lambda>v. severity v = Medium) vs)),
      low = int (length (filter (\<lambda>v. severity v = Low) vs))\<rparr>"
  unfolding normalizeVulnerabilities_def tally_generic by simp

lemma two_members:
  assumes "x \<in> set xs" "y \<in> set xs" "x \<noteq> y" "P x" "P y"
  shows "2 \<le> length (filter P xs)"
proof -
  have "{x, y} \<subseteq> set (filter P xs)" using assms by auto
  then have "card {x, y} \<le> card (set (filter P xs))" by (intro card_mono) auto
  also have "\<dots> \<le> length (filter P xs)" by (rule card_length)
  finally show ?thesis using assms(3) by simp
qed

lemma debug_finding_emitted:
  assumes "js_includes html ''debug=true''"
  shows "\<lparr>name = ''Debug Configuration'', version = ''Enabled'',
              vulnerability = ''Debug mode enabled in production'', severity = Medium,
              lineNumbers = None, recommendation = None\<rparr>
         \<in> set (detectVulnerableTechnologies techs html)"
  using assms by (simp add: detectVulnerableTechnologies_def debug_finding_def)

lemma console_finding_emitted:
  assumes "js_includes html ''console.log''"
  shows "\<lparr>name = ''Console Logging'', version = ''Present'',
              vulnerability = ''Console logging in production code'', severity = Low,
              lineNumbers = None, recommendation = None\<rparr>
         \<in> set (detectVulnerableTechnologies techs html)"
  using assms by (simp add: detectVulnerableTechnologies_def console_finding_def)

lemma pattern_8_call: "run pattern_8 ''console.log('' \<noteq> []"
  by code_simp

lemma pattern_9_flag: "run pattern_9 ''debug=true'' \<noteq> []"
  by code_simp

lemma vp8: "vp8 \<in> set vulnerablePatterns" "pattern vp8 = pattern_8" "vp_severity vp8 = Low"
  "prefix ''Console logging in production code'' (vp_vulnerability vp8 @ '' - '' @ exploitation vp8)"
  by (simp_all add: vp8_def vulnerablePatterns_def)

lemma vp9: "vp9 \<in> set vulnerablePatterns" "pattern vp9 = pattern_9" "vp_severity vp9 = Medium"
  "prefix ''Debug mode enabled in production'' (vp_vulnerability vp9 @ '' - '' @ exploitation vp9)"
  by (simp_all add: vp9_def vulnerablePatterns_def)

lemma both_snippets_includes:
  "js_includes both_snippets jquery_html_nombre" "js_includes both_snippets ''innerHTML =''"
  by code_simp+

lemma console_and_debug_includes:
  "js_includes ''console.log(1); debug=true'' ''console.log(''"
  "js_includes ''console.log(1); debug=true'' ''debug=true''"
  by code_simp+

subsection \<open>The max-age pattern and the leftmost match\<close>

lemma run_Seq_Chr:
  "run (Seq (Chr p) r) s = (case s of [] \<Rightarrow> [] | c # cs \<Rightarrow> if p c then run r cs else [])"
  by (cases s) auto

lemma run_lit: "run (lit w) s = (if prefix w s then [drop (length w) s] else [])"
proof (induction w arbitrary: s)
  case Nil
  then show ?case by (simp add: lit_def seqs_def)
next
  case (Cons c w)
  have l: "lit (c # w) = Seq (Chr (\<lambda>x. x = c)) (lit w)"
    by (simp add: lit_def seqs_def ch_def)
  show ?case unfolding l run_Seq_Chr using Cons.IH by (cases s) auto
qed

lemma run_Star_Chr_Nil: "run (Star (Chr p)) [] = [[]]"
  by (simp add: run.simps(5))

lemma run_Star_Chr_Cons:
  "run (Star (Chr p)) (c # cs) = (if p c then run (Star (Chr p)) cs else []) @ [c # cs]"
  by (subst run.simps(5)) simp

lemma run_Star_Chr_hd: "\<exists>ts. run (Star (Chr p)) s = dropWhile p s # ts"
proof (induction s)
  case Nil
  then show ?case by (simp add: run_Star_Chr_Nil)
next
  case (Cons c cs)
  then show ?case by (auto simp: run_Star_Chr_Cons)
qed

lemma concat_singletons: "concat (map (\<lambda>s. [s]) xs) = xs"
  by (induction xs) auto

lemma run_Seq_Eps: "run (Seq r Eps) t = run r t"
proof -
  have "run Eps = (\<lambda>s. [s])" by (rule ext) simp
  then show ?thesis by (simp add: concat_singletons)
qed

lemma run_max_age:
  "run max_age_pattern s =
     (if prefix ''max-age='' s
      then (case drop 8 s of [] \<Rightarrow> [] | d # q \<Rightarrow> if is_digit d then run (Star digit) q else [])
      else [])"
proof -
  define X where "X = Seq (Seq digit (Star digit)) Eps"
  have p: "max_age_pattern = Seq (lit ''max-age='') X"
    by (simp add: max_age_pattern_def seqs_def rx_plus_def X_def)
  have x: "\<And>t. run X t =
      (case t of [] \<Rightarrow> [] | d # q \<Rightarrow> if is_digit d then run (Star digit) q else [])"
    unfolding X_def run_Seq_Eps digit_def by (rule run_Seq_Chr)
  have "run max_age_pattern s = concat (map (run X) (run (lit ''max-age='') s))"
    unfolding p by (rule run.simps(3))
  also have "\<dots> = (if prefix ''max-age='' s then run X (drop 8 s) else [])"
  proof -
    have len: "length ''max-age='' = 8" by simp
    show ?thesis unfolding run_lit len by simp
  qed
  finally show ?thesis unfolding x .
qed

lemma run_max_age_Cons:
  assumes "run max_age_pattern s = t # ts"
  shows "\<exists>d q. s = ''max-age='' @ d # q \<and> is_digit d \<and> t = dropWhile is_digit q"
proof -
  have pre: "prefix ''max-age='' s"
  proof (rule ccontr)
    assume "\<not> prefix ''max-age='' s"
    then have "run max_age_pattern s = []" unfolding run_max_age by simp
    with assms show False by simp
  qed
  then obtain z where z: "s = ''max-age='' @ z" by (auto simp: prefix_def)
  have r: "run max_age_pattern s =
      (case z of [] \<Rightarrow> [] | d # q \<Rightarrow> if is_digit d then run (Star digit) q else [])"
    unfolding run_max_age z by simp
  from assms r obtain d q where dq: "z = d # q" by (cases z) auto
  from assms r dq have dd: "is_digit d" by (auto split: if_splits)
  from assms r dq dd have "run (Star digit) q = t # ts" by simp
  with run_Star_Chr_hd [of is_digit q] have "t = dropWhile is_digit q"
    unfolding digit_def by auto
  with z dq dd show ?thesis by blast
qed

lemma run_max_age_match:
  assumes "is_digit d"
  shows "\<exists>ts. run max_age_pattern (''max-age='' @ d # q) = dropWhile is_digit q # ts"
proof -
  have "run max_age_pattern (''max-age='' @ d # q) = run (Star digit) q"
    unfolding run_max_age using assms by simp
  with run_Star_Chr_hd [of is_digit q] show ?thesis unfolding digit_def by simp
qed

lemma search_from_Some:
  assumes "search_from r i s = Some (st, en)"
  shows "\<exists>pre rest t. leftmost r s pre rest t \<and> st = i + length pre
           \<and> en = st + (length rest - length t)"
  using assms
proof (induction s arbitrary: i)
  case Nil
  then obtain t ts where h: "run r [] = t # ts" "st = i" "en = i"
    by (auto split: list.splits)
  have "leftmost r [] [] [] t" unfolding leftmost_def using h(1) by simp
  with h show ?case by fastforce
next
  case (Cons c cs)
  show ?case
  proof (cases "run r (c # cs)")
    case Nil
    with Cons.prems have "search_from r (Suc i) cs = Some (st, en)" by simp
    from Cons.IH [OF this] obtain pre rest t where
      h: "leftmost r cs pre rest t" "st = Suc i + length pre"
         "en = st + (length rest - length t)"
      by blast
    have "leftmost r (c # cs) (c # pre) rest t"
      unfolding leftmost_def
    proof (intro conjI allI impI)
      show "c # cs = (c # pre) @ rest" using h(1) by (simp add: leftmost_def)
      show "\<exists>ts. run r rest = t # ts" using h(1) by (simp add: leftmost_def)
    next
      fix pre' rest'
      assume a: "c # cs = pre' @ rest' \<and> length pre' < length (c # pre)"
      show "run r rest' = []"
      proof (cases pre')
        case Nil
        with a \<open>run r (c # cs) = []\<close> show ?thesis by simp
      next
        case (Cons x xs)
        with a have "cs = xs @ rest' \<and> length xs < length pre" by auto
        with h(1) show ?thesis unfolding leftmost_def by blast
      qed
    qed
    moreover have "st = i + length (c # pre)" using h(2) by simp
    ultimately show ?thesis using h(3) by blast
  next
    case (Cons t ts)
    with Cons.prems have e: "st = i" "en = i + (length (c # cs) - length t)" by auto
    have "leftmost r (c # cs) [] (c # cs) t" unfolding leftmost_def using Cons by simp
    moreover have "st = i + length ([]::string)" using e by simp
    moreover have "en = st + (length (c # cs) - length t)" using e by simp
    ultimately show ?thesis by blast
  qed
qed

lemma search_from_leftmost:
  assumes "leftmost r s pre rest t"
  shows "search_from r i s = Some (i + length pre, i + length pre + (length rest - length t))"
  using assms
proof (induction pre arbitrary: i s)
  case Nil
  then have "s = rest" "\<exists>ts. run r rest = t # ts" by (simp_all add: leftmost_def)
  then show ?case by (cases rest) auto
next
  case (Cons c pre)
  from Cons.prems have s: "s = c # (pre @ rest)" by (simp add: leftmost_def)
  from Cons.prems have "s = [] @ s \<and> length ([]::string) < length (c # pre) \<longrightarrow> run r s = []"
    unfolding leftmost_def by blast
  then have e: "run r (c # (pre @ rest)) = []" using s by simp
  have "leftmost r (pre @ rest) pre rest t"
    unfolding leftmost_def
  proof (intro conjI allI impI)
    show "pre @ rest = pre @ rest" by simp
    show "\<exists>ts. run r rest = t # ts" using Cons.prems by (simp add: leftmost_def)
  next
    fix pre' rest'
    assume "pre @ rest = pre' @ rest' \<and> length pre' < length pre"
    then have "s = (c # pre') @ rest' \<and> length (c # pre') < length (c # pre)"
      using s by simp
    with Cons.prems show "run r rest' = []" unfolding leftmost_def by blast
  qed
  from Cons.IH [OF this, of "Suc i"] e show ?case unfolding s by simp
qed

lemma take_prefix: "take (length a) (a @ b) = a"
  by simp

lemma dropWhile_digits_post:
  assumes "list_all p ds" and "post = [] \<or> \<not> p (hd post)"
  shows "dropWhile p (ds @ post) = post"
proof -
  from assms(1) have "dropWhile p (ds @ post) = dropWhile p post"
    by (simp add: dropWhile_append2 list_all_iff)
  also from assms(2) have "\<dots> = post" by (cases post) auto
  finally show ?thesis .
qed

lemma first_max_age_match:
  assumes "first_max_age v ds"
  shows "js_match max_age_pattern v = Some (''max-age='' @ ds)"
proof -
  from assms obtain pre post where
    v: "v = pre @ ''max-age='' @ ds @ post" and ne: "ds \<noteq> []" and dg: "list_all is_digit ds"
    and po: "post = [] \<or> \<not> is_digit (hd post)"
    and mi: "\<forall>p d q. v = p @ ''max-age='' @ d # q \<and> is_digit d \<longrightarrow> length pre \<le> length p"
    unfolding first_max_age_def by blast
  from ne obtain d ds' where ds: "ds = d # ds'" by (cases ds) auto
  with dg have d: "is_digit d" and ds': "list_all is_digit ds'" by simp_all
  define rest where "rest = ''max-age='' @ ds @ post"
  have rest: "rest = ''max-age='' @ d # (ds' @ post)" unfolding rest_def ds by simp
  from run_max_age_match [OF d, of "ds' @ post"] dropWhile_digits_post [OF ds' po]
  obtain ts where r: "run max_age_pattern rest = post # ts" unfolding rest by auto
  have lm: "leftmost max_age_pattern v pre rest post"
    unfolding leftmost_def
  proof (intro conjI allI impI)
    show "v = pre @ rest" unfolding rest_def v by simp
    show "\<exists>ts. run max_age_pattern rest = post # ts" using r by blast
  next
    fix pre' rest'
    assume a: "v = pre' @ rest' \<and> length pre' < length pre"
    show "run max_age_pattern rest' = []"
    proof (cases "run max_age_pattern rest'")
      case Nil
      then show ?thesis .
    next
      case (Cons t ts)
      from run_max_age_Cons [OF this] obtain d' q' where
        "rest' = ''max-age='' @ d' # q'" "is_digit d'" by blast
      with a mi have "length pre \<le> length pre'" by blast
      with a show ?thesis by simp
    qed
  qed
  have len: "length rest - length post = length (''max-age='' @ ds)"
    unfolding rest_def by simp
  have "search_from max_age_pattern 0 v =
      Some (0 + length pre, 0 + length pre + (length rest - length post))"
    by (rule search_from_leftmost [OF lm])
  then have "js_match max_age_pattern v = Some (take (length rest - length post) (drop (length pre) v))"
    unfolding js_match_def by simp
  also have "drop (length pre) v = rest" unfolding v rest_def by simp
  also have "take (length rest - length post) rest = ''max-age='' @ ds"
    unfolding len unfolding rest_def by simp
  finally show ?thesis .
qed

lemma match_first_max_age:
  assumes "js_match max_age_pattern v = Some m"
  shows "\<exists>ds. m = ''max-age='' @ ds \<and> first_max_age v ds"
proof -
  from assms obtain st en where se: "search_from max_age_pattern 0 v = Some (st, en)"
    and m: "m = take (en - st) (drop st v)"
    unfolding js_match_def by (auto split: option.splits)
  from search_from_Some [OF se] obtain pre rest t where
    lm: "leftmost max_age_pattern v pre rest t" and st: "st = 0 + length pre"
    and en: "en = st + (length rest - length t)" by blast
  from lm have v: "v = pre @ rest" and "\<exists>ts. run max_age_pattern rest = t # ts"
    and mi: "\<forall>pre' rest'. v = pre' @ rest' \<and> length pre' < length pre
               \<longrightarrow> run max_age_pattern rest' = []"
    unfolding leftmost_def by blast+
  then obtain ts where "run max_age_pattern rest = t # ts" by blast
  from run_max_age_Cons [OF this] obtain d q where
    rest: "rest = ''max-age='' @ d # q" and d: "is_digit d" and t: "t = dropWhile is_digit q"
    by blast
  define ds where "ds = d # takeWhile is_digit q"
  have split: "rest = (''max-age='' @ ds) @ t" unfolding rest ds_def t by simp
  have len: "length rest - length t = length (''max-age='' @ ds)" unfolding split by simp
  have "m = take (length rest - length t) rest" unfolding m en st v by simp
  also have "\<dots> = ''max-age='' @ ds" using len split take_prefix by metis
  finally have m': "m = ''max-age='' @ ds" .
  have c1: "v = pre @ ''max-age='' @ ds @ t" unfolding v split by simp
  have c2: "ds \<noteq> []" unfolding ds_def by simp
  have c3: "list_all is_digit ds" unfolding ds_def using d
    by (simp add: list_all_iff) (meson set_takeWhileD)
  have c4: "t = [] \<or> \<not> is_digit (hd t)" unfolding t by (metis hd_dropWhile)
  have c5: "\<forall>p d' q'. v = p @ ''max-age='' @ d' # q' \<and> is_digit d' \<longrightarrow> length pre \<le> length p"
  proof (intro allI impI)
    fix p d' q'
    assume a: "v = p @ ''max-age='' @ d' # q' \<and> is_digit d'"
    show "length pre \<le> length p"
    proof (rule ccontr)
      assume "\<not> length pre \<le> length p"
      then have "v = p @ (''max-age='' @ d' # q') \<and> length p < length pre" using a by simp
      with mi have "run max_age_pattern (''max-age='' @ d' # q') = []" by blast
      with run_max_age_match [of d' q'] a show False by auto
    qed
  qed
  have "first_max_age v ds"
    unfolding first_max_age_def using c1 c2 c3 c4 c5 by blast
  with m' show ?thesis by blast
qed

lemma parseInt_digits:
  assumes "ds \<noteq> []" and "list_all is_digit ds"
  shows "parseInt ds = Some (decimal ds)"
proof -
  from assms(2) have tw: "takeWhile is_digit ds = ds" by (simp add: list_all_iff)
  show ?thesis unfolding parseInt_def Let_def tw using assms(1) by simp
qed

lemma parseInt_zero: "parseInt ''0'' = Some 0"
  by (simp add: parseInt_def is_digit_def decimal_def digit_value_def)

lemma hsts_field:
  "hsts (analyzeSecurityHeaders hs) =
     (case hs ''strict-transport-security'' of
        None \<Rightarrow> False
      | Some v \<Rightarrow> v \<noteq> [] \<and> js_includes v ''max-age=''
                 \<and> ge_number (parseInt (max_age_digits v)) 31536000)"
  by (auto simp: analyzeSecurityHeaders_def Let_def truthy_def split: option.splits)

lemma hsts_value_valid:
  "v \<noteq> [] \<and> js_includes v ''max-age='' \<and> ge_number (parseInt (max_age_digits v)) 31536000
   \<longleftrightarrow> (\<exists>ds. first_max_age v ds \<and> 31536000 \<le> decimal ds)"
proof
  assume a: "v \<noteq> [] \<and> js_includes v ''max-age=''
      \<and> ge_number (parseInt (max_age_digits v)) 31536000"
  show "\<exists>ds. first_max_age v ds \<and> 31536000 \<le> decimal ds"
  proof (cases "js_match max_age_pattern v")
    case None
    then have "max_age_digits v = ''0''" by (simp add: max_age_digits_def)
    with a show ?thesis by (simp add: parseInt_zero ge_number_def)
  next
    case (Some m)
    from match_first_max_age [OF this] obtain ds where
      m: "m = ''max-age='' @ ds" and f: "first_max_age v ds" by blast
    from f have ne: "ds \<noteq> []" and dg: "list_all is_digit ds"
      unfolding first_max_age_def by blast+
    from Some m ne have "max_age_digits v = ds" by (simp add: max_age_digits_def)
    with a parseInt_digits [OF ne dg] have "31536000 \<le> decimal ds"
      by (simp add: ge_number_def)
    with f show ?thesis by blast
  qed
next
  assume "\<exists>ds. first_max_age v ds \<and> 31536000 \<le> decimal ds"
  then obtain ds where f: "first_max_age v ds" and g: "31536000 \<le> decimal ds" by blast
  from f have ne: "ds \<noteq> []" and dg: "list_all is_digit ds"
    unfolding first_max_age_def by blast+
  from f obtain pre post where v: "v = pre @ ''max-age='' @ ds @ post"
    unfolding first_max_age_def by blast
  then have "v = pre @ ''max-age='' @ (ds @ post)" by simp
  then have inc: "js_includes v ''max-age=''" unfolding js_includes_iff by blast
  from v have nv: "v \<noteq> []" by simp
  from first_max_age_match [OF f] ne have "max_age_digits v = ds"
    by (simp add: max_age_digits_def)
  with parseInt_digits [OF ne dg] g have "ge_number (parseInt (max_age_digits v)) 31536000"
    by (simp add: ge_number_def)
  with inc nv show "v \<noteq> [] \<and> js_includes v ''max-age=''
      \<and> ge_number (parseInt (max_age_digits v)) 31536000" by blast
qed

lemma first_max_age_unique:
  assumes "first_max_age v ds" and "first_max_age v ds'"
  shows "ds = ds'"
  using first_max_age_match [OF assms(1)] first_max_age_match [OF assms(2)] by simp

lemma first_max_age_head:
  assumes "ds \<noteq> []" "list_all is_digit ds" "post = [] \<or> \<not> is_digit (hd post)"
  shows "first_max_age (''max-age='' @ ds @ post) ds"
proof -
  have "''max-age='' @ ds @ post = [] @ ''max-age='' @ ds @ post \<and> ds \<noteq> []
      \<and> list_all is_digit ds \<and> (post = [] \<or> \<not> is_digit (hd post))
      \<and> (\<forall>p d q. ''max-age='' @ ds @ post = p @ ''max-age='' @ d # q \<and> is_digit d
            \<longrightarrow> length ([]::string) \<le> length p)"
    using assms by simp
  then show ?thesis unfolding first_max_age_def by blast
qed

lemma decimal_year: "decimal ''31536000'' = 31536000" "decimal ''31535999'' = 31535999"
  by (simp_all add: decimal_def digit_value_def)

lemma digits_year: "list_all is_digit ''31536000''" "list_all is_digit ''31535999''"
  by (simp_all add: is_digit_def)

subsection \<open>Output order, line numbers and the random draw\<close>

text \<open>
  The names \<open>detectTechnologies\<close> returns are sorted and pairwise different. The line
  numbers of a code-pattern finding are those of the lines the pattern matches: the
  \<open>lastIndex\<close> that the test of one line leaves behind is reset before the next.
  \<open>analyzeSSL\<close> reads \<open>Math.random()\<close> once, for \<open>daysRemaining\<close> of an https URL.
\<close>

lemma set_add_distinct: "distinct xs \<Longrightarrow> distinct (set_add x xs)"
  by (simp add: set_add_def)

lemma fold_signatures_distinct:
  "distinct acc \<Longrightarrow>
   distinct (fold (\<lambda>sig acc. case sig of (techName, ev) \<Rightarrow>
             if list_ex (holds html doc) ev then set_add techName acc else acc) sigs acc)"
proof (induction sigs arbitrary: acc)
  case Nil
  then show ?case by simp
next
  case (Cons s sigs)
  obtain n ev where s: "s = (n, ev)" by (cases s)
  show ?case unfolding s using Cons.prems
    by (auto intro!: Cons.IH set_add_distinct)
qed

lemma detected_names_distinct: "distinct (detected_names html doc)"
  unfolding detected_names_def by (rule fold_signatures_distinct) simp

lemma detectTechnologies_names:
  "map tech_name (detectTechnologies html doc) = sort (detected_names html doc)"
  by (simp add: detectTechnologies_def comp_def)

lemma global_test_fresh: "fst (global_test p 0 line) = regex_test p line"
  by (auto simp: global_test_def regex_test_def split: option.splits)

lemma line_step_fresh:
  "line_step p e (0, found) =
     (0, if regex_test p (fst e) then found @ [snd e + 1] else found)"
proof -
  obtain line index where e: "e = (line, index)" by (cases e)
  obtain m li where g: "global_test p 0 line = (m, li)" by (cases "global_test p 0 line")
  with global_test_fresh [of p line] have "m = regex_test p line" by simp
  with g show ?thesis unfolding e by (simp add: line_step_def)
qed

lemma fold_line_step:
  "fold (line_step p) es (0, found) =
     (0, found @ map (\<lambda>e. snd e + 1) (filter (\<lambda>e. regex_test p (fst e)) es))"
proof (induction es arbitrary: found)
  case Nil
  then show ?case by simp
next
  case (Cons e es)
  show ?case by (simp add: line_step_fresh Cons.IH)
qed

lemma find_lines_stateless: "find_lines p html = stateless_lines p html"
  by (simp add: find_lines_def stateless_lines_def Let_def fold_line_step)

lemma analyzeSSL_without_days:
  "without_days (analyzeSSL url hs r1) = without_days (analyzeSSL url hs r2)"
  by (simp add: without_days_def analyzeSSL_def Let_def)

lemma analyzeSSL_http:
  "\<not> startsWith url ''https://'' \<Longrightarrow> analyzeSSL url hs r1 = analyzeSSL url hs r2"
  by (simp add: analyzeSSL_def Let_def)

lemma days_range:
  assumes "0 \<le> r" "r < 1"
  shows "30 \<le> \<lfloor>r * 365\<rfloor> + 30 \<and> \<lfloor>r * 365\<rfloor> + 30 \<le> (394::int)"
proof -
  from assms have "0 \<le> r * 365" "r * 365 < 365" by simp_all
  then have "0 \<le> \<lfloor>r * 365\<rfloor>" "\<lfloor>r * 365\<rfloor> < 365" by (simp_all add: floor_less_iff)
  then show ?thesis by simp
qed

lemma detectTechnologies_sorted: "sorted (map tech_name (detectTechnologies html doc))"
  unfolding detectTechnologies_names by simp

lemma detectTechnologies_distinct: "distinct (map tech_name (detectTechnologies html doc))"
  unfolding detectTechnologies_names by (simp add: detected_names_distinct)

lemma analyzeSSL_daysRemaining:
  assumes "startsWith url ''https://''"
  shows "map_option (\<lambda>i. daysRemaining (certificateValidity i)) (additionalInfo (analyzeSSL url hs r))
         = Some (\<lfloor>r * 365\<rfloor> + 30)"
  using assms by (simp add: analyzeSSL_def Let_def)

lemma analyzeSSL_two_draws:
  "analyzeSSL ''https://example.com'' Map.empty 0
   \<noteq> analyzeSSL ''https://example.com'' Map.empty (1 / 2)"
proof -
  have "\<lfloor>(1 / 2::real) * 365\<rfloor> = 182" by linarith
  then show ?thesis
    by (simp add: analyzeSSL_def Let_def startsWith_def)
qed

subsection \<open>The robots.txt gate\<close>

text \<open>
  The gate fails open: a failed request and every response outside 200..299 allow
  scraping. For a body without a section for the bot's own user agent, the decision is
  the conjunction of two substring tests on the lower-cased text.
\<close>

lemma robots_fail_open:
  "validateRobotsTxt Threw"
  "\<not> response_ok status \<Longrightarrow> validateRobotsTxt (Response status body)"
  by (simp_all add: validateRobotsTxt_def)

lemma scrapiibot_lower: "toLowerCase ''ScrapiiBot/2.0'' = ''scrapiibot/2.0''"
  by code_simp

lemma robots_wildcard_disallow:
  assumes "response_ok status"
    and "\<not> js_includes (toLowerCase body) ''user-agent: scrapiibot/2.0''"
  shows "validateRobotsTxt (Response status body) \<longleftrightarrow>
     \<not> (js_includes (toLowerCase body) ''user-agent: *''
        \<and> js_includes (toLowerCase body) ''disallow: /'')"
  using assms by (simp add: validateRobotsTxt_def Let_def scrapiibot_lower)

section \<open>Claims\<close>

text \<open>
  Claim C2. For vulnerability counts (integers that are not negative) the penalty is the
  negation of \<open>min(30, 25*min(critical,3) + 12*min(high,5) + 5*min(medium,8) + 2*min(low,10))\<close>.
  Its magnitude lies between 0 and 30 for every input, ten criticals and ten highs give
  exactly \<open>-30\<close> whatever the other two counts are, and the magnitude does not decrease
  when counts grow.
\<close>

theorem C2_vulnerability_penalty:
  "(0 \<le> critical v \<and> 0 \<le> high v \<and> 0 \<le> medium v \<and> 0 \<le> low v \<longrightarrow>
      evaluateVulnerabilitiesRealistically v =
        - min 30 (25 * min (critical v) 3 + 12 * min (high v) 5
                  + 5 * min (medium v) 8 + 2 * min (low v) 10))
   \<and> 0 \<le> - evaluateVulnerabilitiesRealistically v
   \<and> - evaluateVulnerabilitiesRealistically v \<le> 30
   \<and> evaluateVulnerabilitiesRealistically
        \<lparr>critical = 10, high = 10, medium = m, low = l\<rparr> = - 30
   \<and> (critical v \<le> critical w \<and> high v \<le> high w \<and> medium v \<le> medium w \<and> low v \<le> low w \<longrightarrow>
        - evaluateVulnerabilitiesRealistically v \<le> - evaluateVulnerabilitiesRealistically w)"
proof (intro conjI impI)
  assume "0 \<le> critical v \<and> 0 \<le> high v \<and> 0 \<le> medium v \<and> 0 \<le> low v"
  then have "- evaluateVulnerabilitiesRealistically v =
      min 30 (25 * min (critical v) 3 + 12 * min (high v) 5
              + 5 * min (medium v) 8 + 2 * min (low v) 10)"
    unfolding penalty_magnitude by (auto simp: min_def)
  then show "evaluateVulnerabilitiesRealistically v =
      - min 30 (25 * min (critical v) 3 + 12 * min (high v) 5
                + 5 * min (medium v) 8 + 2 * min (low v) 10)"
    by linarith
next
  show "0 \<le> - evaluateVulnerabilitiesRealistically v"
    unfolding penalty_magnitude by (auto simp: min_def)
next
  show "- evaluateVulnerabilitiesRealistically v \<le> 30"
    unfolding penalty_magnitude by simp
next
  have "- evaluateVulnerabilitiesRealistically
          \<lparr>critical = 10, high = 10, medium = m, low = l\<rparr> = 30"
    unfolding penalty_magnitude by (auto simp: min_def)
  then show "evaluateVulnerabilitiesRealistically
          \<lparr>critical = 10, high = 10, medium = m, low = l\<rparr> = - 30"
    by linarith
next
  assume "critical v \<le> critical w \<and> high v \<le> high w \<and> medium v \<le> medium w \<and> low v \<le> low w"
  then show "- evaluateVulnerabilitiesRealistically v \<le> - evaluateVulnerabilitiesRealistically w"
    unfolding penalty_magnitude by (auto simp: min_def)
qed

theorem C2_vulnerability_penalty_witness:
  "evaluateVulnerabilitiesRealistically \<lparr>critical = 1, high = 2, medium = 0, low = 3\<rparr> = - 30
   \<and> evaluateVulnerabilitiesRealistically \<lparr>critical = 0, high = 1, medium = 1, low = 1\<rparr> = - 19
   \<and> - evaluateVulnerabilitiesRealistically \<lparr>critical = 0, high = 1, medium = 1, low = 1\<rparr>
       \<le> - evaluateVulnerabilitiesRealistically \<lparr>critical = 1, high = 2, medium = 0, low = 3\<rparr>"
  using C2_vulnerability_penalty
    [of "\<lparr>critical = 0, high = 1, medium = 1, low = 1\<rparr>" 0 0
        "\<lparr>critical = 1, high = 2, medium = 0, low = 3\<rparr>"]
    C2_vulnerability_penalty
    [of "\<lparr>critical = 1, high = 2, medium = 0, low = 3\<rparr>" 0 0
        "\<lparr>critical = 1, high = 2, medium = 0, low = 3\<rparr>"]
  by simp

text \<open>
  Claim C7. The risk level is decided by the first matching branch. With a critical count
  that is not negative: \<open>'Bajo'\<close> (low) iff the score is at least 85, there is no critical
  finding and at most one high finding; otherwise \<open>'Medio'\<close> (medium) iff the score is at
  least 70 and there is no critical finding; otherwise \<open>'Alto'\<close> (high) iff the score is at
  least 50 or there are more than two high findings; otherwise \<open>'Critico'\<close> (critical). A
  score below 50 with more than two high findings is therefore \<open>'Alto'\<close>. The four English
  names of the specification are the four Spanish strings the code returns.
\<close>

theorem C7_risk_level_first_match:
  assumes "0 \<le> critical v"
  shows "(calculateRiskLevel s v = Bajo \<longleftrightarrow> js_ge s 85 \<and> critical v = 0 \<and> high v \<le> 1)
   \<and> (calculateRiskLevel s v = Medio \<longleftrightarrow>
        \<not> (js_ge s 85 \<and> critical v = 0 \<and> high v \<le> 1) \<and> js_ge s 70 \<and> critical v = 0)
   \<and> (calculateRiskLevel s v = Alto \<longleftrightarrow>
        \<not> (js_ge s 85 \<and> critical v = 0 \<and> high v \<le> 1) \<and> \<not> (js_ge s 70 \<and> critical v = 0)
        \<and> (js_ge s 50 \<or> high v > 2))
   \<and> (calculateRiskLevel s v = Critico \<longleftrightarrow>
        \<not> (js_ge s 85 \<and> critical v = 0 \<and> high v \<le> 1) \<and> \<not> (js_ge s 70 \<and> critical v = 0)
        \<and> \<not> (js_ge s 50 \<or> high v > 2))
   \<and> (\<not> js_ge s 50 \<and> high v > 2 \<longrightarrow> calculateRiskLevel s v = Alto)"
proof -
  from assms have c: "\<not> critical v > 0 \<longleftrightarrow> critical v = 0" by linarith
  show ?thesis
    unfolding calculateRiskLevel_def Let_def c
    using risk_labels_distinct js_ge_mono [of s 70 50] js_ge_mono [of s 85 70] by auto
qed

theorem C7_risk_level_first_match_witness:
  "calculateRiskLevel (Num 45) \<lparr>critical = 0, high = 3, medium = 0, low = 0\<rparr> = Alto
   \<and> calculateRiskLevel (Num 45) \<lparr>critical = 0, high = 3, medium = 0, low = 0\<rparr> \<noteq> Critico"
  using C7_risk_level_first_match
    [of "\<lparr>critical = 0, high = 3, medium = 0, low = 0\<rparr>" "Num 45"]
  by (simp add: risk_labels_distinct)

text \<open>
  Claim C5. For site type \<open>'financial'\<close>, all seven tracked headers present at excellent
  quality and no vulnerability of any severity, \<open>calculateRealisticScore\<close> returns an
  overall score of at least 95 and the grade \<open>'A+'\<close>, for every site context (or none).
  The qualities are computed in exact arithmetic; \<open>Math.round\<close> of the header points makes
  the result an integer.
\<close>

theorem C5_financial_excellent:
  assumes "excellent_headers h"
    and "critical v = 0 \<and> high v = 0 \<and> medium v = 0 \<and> low v = 0"
  shows "js_ge (overall (calculateRealisticScore h v (Some ''financial'') ctx)) 95
       \<and> grade (calculateRealisticScore h v (Some ''financial'') ctx) = ''A+''"
proof -
  have hs: "score (evaluateHeadersRealistically h ctx) = 89"
    using excellent_score [OF assms(1)] by simp
  have vs: "evaluateVulnerabilitiesRealistically v = 0"
    using assms(2) by (simp add: evaluateVulnerabilitiesRealistically_def)
  have ov: "overall (calculateRealisticScore h v (Some ''financial'') ctx) = Num 100"
    using bonus_nonneg [of h v ctx]
    by (simp add: calculateRealisticScore_def Let_def financial_baseline hs vs)
  have gr: "grade (calculateRealisticScore h v (Some ''financial'') ctx) = ''A+''"
    using bonus_nonneg [of h v ctx]
    by (simp add: calculateRealisticScore_def Let_def financial_baseline hs vs calculateGrade_def)
  show ?thesis using ov gr by simp
qed

theorem C5_financial_excellent_witness:
  "excellent_headers example_headers
   \<and> js_ge (overall (calculateRealisticScore example_headers
        \<lparr>critical = 0, high = 0, medium = 0, low = 0\<rparr> (Some ''financial'') None)) 95
   \<and> grade (calculateRealisticScore example_headers
        \<lparr>critical = 0, high = 0, medium = 0, low = 0\<rparr> (Some ''financial'') None) = ''A+''"
  using C5_financial_excellent [OF example_headers_excellent,
      of "\<lparr>critical = 0, high = 0, medium = 0, low = 0\<rparr>" None]
    example_headers_excellent
  by simp

text \<open>
  Claim C9. \<open>filterFalsePositives\<close> keeps exactly the findings (in their order) whose
  lowercased vulnerability text contains none of \<open>google\<close>, \<open>gtm\<close>, \<open>tag manager\<close>,
  \<open>maps api\<close>, \<open>analytics\<close>, \<open>firebase\<close>, \<open>gapi\<close>, none of \<open>console.log\<close>,
  \<open>debug mode\<close>, \<open>development\<close>, and that are not an \<open>innerhtml\<close> text also containing
  \<open>hardcoded\<close>, \<open>safe\<close> or \<open>sanitized\<close>. A finding whose text mentions \<open>analytics\<close> or
  \<open>console.log\<close> is dropped whatever its severity.
\<close>

theorem C9_filter_false_positives:
  "filterFalsePositives vs = filter kept_finding vs
   \<and> (js_includes (toLowerCase (vulnerability v)) ''analytics''
        \<or> js_includes (toLowerCase (vulnerability v)) ''console.log''
      \<longrightarrow> v \<notin> set (filterFalsePositives vs))"
proof -
  have f: "filterFalsePositives vs = filter kept_finding vs"
    unfolding filterFalsePositives_def Let_def kept_finding_unfold by simp
  show ?thesis unfolding f using kept_finding_unfold by auto
qed

theorem C9_filter_false_positives_witness:
  "js_includes (toLowerCase (vulnerability finding_a)) ''analytics''
   \<and> severity finding_a = Critical
   \<and> finding_a \<notin> set (filterFalsePositives [finding_a, finding_b])
   \<and> filterFalsePositives [finding_a, finding_b] = [finding_b]"
proof -
  have sev: "severity finding_a = Critical" by (simp add: finding_a_def)
  show ?thesis
    using C9_filter_false_positives [of "[finding_a, finding_b]" finding_a]
      finding_a_mentions_analytics filter_example sev
    by blast
qed

text \<open>
  Claim C8. A site type that is not in the baseline table should make the strict path
  (\<open>BaselineScorer.analyzeSite\<close>) fail with the unknown-site-type error and the permissive
  path (\<open>calculateRealisticScore\<close>) use the default baseline 80. Both hold for every name
  that is neither a key of the table nor a member of \<open>Object.prototype\<close>
  (\<open>unknown_site_type_strict\<close>, \<open>unknown_site_type_permissive\<close>). The site type
  \<open>'constructor'\<close> is in neither table, yet both lookups find the inherited member: the
  permissive path takes it as the baseline, so that the total is \<open>NaN\<close> and the grade
  \<open>'F'\<close>, and the strict path skips its unknown-type check and ends in a \<open>TypeError\<close>.
\<close>

theorem C8_inherited_site_type:
  "''constructor'' \<notin> fst ` set SITE_BASELINES
   \<and> ''constructor'' \<notin> fst ` set BASELINES
   \<and> baseline (details (calculateRealisticScore hs v (Some ''constructor'') ctx)) = PrototypeMember
   \<and> total (details (calculateRealisticScore hs v (Some ''constructor'') ctx)) = NaN
   \<and> overall (calculateRealisticScore hs v (Some ''constructor'') ctx) = NaN
   \<and> grade (calculateRealisticScore hs v (Some ''constructor'') ctx) = ''F''
   \<and> analyzeSite ''constructor'' hs w = Inl TypeError"
proof (intro conjI)
  show "''constructor'' \<notin> fst ` set SITE_BASELINES" by (simp add: SITE_BASELINES_def)
  show "''constructor'' \<notin> fst ` set BASELINES" by (simp add: BASELINES_def)
qed (simp_all add: calculateRealisticScore_def Let_def constructor_lookup calculateGrade_def
    analyzeSite_def)

text \<open>
  Claim C1, as the code has it. Every HTML input that contains \<open>$("#x").html(nombre)\<close>
  yields a code-pattern finding whose text starts with \<open>jQuery XSS via .html()\<close>, of
  severity high. Every HTML input that contains \<open>innerHTML =\<close> yields the code-pattern
  finding \<open>Potential XSS via innerHTML assignment\<close>, of severity medium, whatever stands on
  the right of the assignment: the signature does not look at it.
\<close>

theorem C1_code_pattern_findings:
  "(js_includes html jquery_html_nombre \<longrightarrow>
      (\<exists>f \<in> set (detectVulnerableTechnologies techs html).
         name f = ''JavaScript Code Pattern''
       \<and> prefix ''jQuery XSS via .html()'' (vulnerability f) \<and> severity f = High))
   \<and> (js_includes html ''innerHTML ='' \<longrightarrow>
      (\<exists>f \<in> set (detectVulnerableTechnologies techs html).
         name f = ''JavaScript Code Pattern''
       \<and> prefix ''Potential XSS via innerHTML assignment'' (vulnerability f)
       \<and> severity f = Medium))"
proof (intro conjI impI)
  assume "js_includes html jquery_html_nombre"
  with pattern_5_nombre have "search_from (pattern vp5) 0 html \<noteq> None"
    unfolding vp5(2) by (rule match_anywhere)
  from pattern_finding_emitted [OF vp5(1) this, of techs] vp5(3,4)
  show "\<exists>f \<in> set (detectVulnerableTechnologies techs html).
         name f = ''JavaScript Code Pattern''
       \<and> prefix ''jQuery XSS via .html()'' (vulnerability f) \<and> severity f = High"
    by metis
next
  assume "js_includes html ''innerHTML =''"
  with pattern_3_assign have "search_from (pattern vp3) 0 html \<noteq> None"
    unfolding vp3(2) by (rule match_anywhere)
  from pattern_finding_emitted [OF vp3(1) this, of techs] vp3(3,4)
  show "\<exists>f \<in> set (detectVulnerableTechnologies techs html).
         name f = ''JavaScript Code Pattern''
       \<and> prefix ''Potential XSS via innerHTML assignment'' (vulnerability f)
       \<and> severity f = Medium"
    by metis
qed

theorem C1_code_pattern_findings_witness:
  "js_includes both_snippets jquery_html_nombre
   \<and> js_includes both_snippets ''innerHTML =''
   \<and> (\<exists>f \<in> set (detectVulnerableTechnologies [] both_snippets).
         name f = ''JavaScript Code Pattern''
       \<and> prefix ''jQuery XSS via .html()'' (vulnerability f) \<and> severity f = High)
   \<and> (\<exists>f \<in> set (detectVulnerableTechnologies [] both_snippets).
         name f = ''JavaScript Code Pattern''
       \<and> prefix ''Potential XSS via innerHTML assignment'' (vulnerability f)
       \<and> severity f = Medium)"
  using C1_code_pattern_findings [of both_snippets "[]"] both_snippets_includes
  by blast

text \<open>
  Claim C1 as stated fails on its second half: for the HTML that consists of the
  assignment of a string literal, \<open>div.innerHTML = "<b>static</b>"\<close>, the result is the
  innerHTML finding.
\<close>

theorem C1_static_innerHTML_counterexample:
  "detectVulnerableTechnologies [] static_innerHTML =
   [\<lparr>name = ''JavaScript Code Pattern'', version = Lineas @ ''1'',
      vulnerability = ''Potential XSS via innerHTML assignment - Permite inyecci'' @ [CHR 0xF3]
         @ ''n de HTML/JavaScript malicioso en el DOM'',
      severity = Medium, lineNumbers = Some [1],
      recommendation = Some (''Usar textContent, createElement() o bibliotecas de sanitizaci''
         @ [CHR 0xF3] @ ''n'')\<rparr>]"
  by code_simp

text \<open>
  Claim C10, as the code has it. Every HTML input that contains \<open>console.log(\<close> yields two
  findings about console logging, the code-pattern finding and the separate
  \<open>Console Logging\<close> finding, both of severity low, so that the tally of low findings is
  at least 2. Every HTML input that contains \<open>debug=true\<close> yields the code-pattern finding
  and the separate \<open>Debug Configuration\<close> finding, both of severity medium, so that the
  tally of medium findings is at least 2.
\<close>

theorem C10_double_findings:
  "(js_includes html ''console.log('' \<longrightarrow>
      (\<exists>f \<in> set (detectVulnerableTechnologies techs html).
       \<exists>g \<in> set (detectVulnerableTechnologies techs html).
         name f = ''JavaScript Code Pattern''
       \<and> prefix ''Console logging in production code'' (vulnerability f) \<and> severity f = Low
       \<and> name g = ''Console Logging'' \<and> severity g = Low)
      \<and> 2 \<le> low (normalizeVulnerabilities (detectVulnerableTechnologies techs html)))
   \<and> (js_includes html ''debug=true'' \<longrightarrow>
      (\<exists>f \<in> set (detectVulnerableTechnologies techs html).
       \<exists>g \<in> set (detectVulnerableTechnologies techs html).
         name f = ''JavaScript Code Pattern''
       \<and> prefix ''Debug mode enabled in production'' (vulnerability f) \<and> severity f = Medium
       \<and> name g = ''Debug Configuration'' \<and> severity g = Medium)
      \<and> 2 \<le> medium (normalizeVulnerabilities (detectVulnerableTechnologies techs html)))"
proof (intro conjI impI)
  let ?R = "detectVulnerableTechnologies techs html"
  assume h: "js_includes html ''console.log(''"
  with pattern_8_call have "search_from (pattern vp8) 0 html \<noteq> None"
    unfolding vp8(2) by (rule match_anywhere)
  from pattern_finding_emitted [OF vp8(1) this, of techs] vp8(3,4)
  obtain f where f: "f \<in> set ?R" "name f = ''JavaScript Code Pattern''"
    "prefix ''Console logging in production code'' (vulnerability f)" "severity f = Low"
    by metis
  from h have "js_includes html ''console.log''"
    using js_includes_part [of html "[]" "''console.log''" "''(''"] by simp
  from console_finding_emitted [OF this, of techs]
  obtain g where g: "g \<in> set ?R" "name g = ''Console Logging''" "severity g = Low"
    by (metis VulnerableTechnology.select_convs(1,4))
  from f g show "\<exists>f \<in> set ?R. \<exists>g \<in> set ?R.
         name f = ''JavaScript Code Pattern''
       \<and> prefix ''Console logging in production code'' (vulnerability f) \<and> severity f = Low
       \<and> name g = ''Console Logging'' \<and> severity g = Low"
    by blast
  from f(2) g(2) have "f \<noteq> g" by auto
  from two_members [OF f(1) g(1) this, of "\<lambda>v. severity v = Low"] f(4) g(3)
  show "2 \<le> low (normalizeVulnerabilities ?R)"
    unfolding normalizeVulnerabilities_counts by simp
next
  let ?R = "detectVulnerableTechnologies techs html"
  assume h: "js_includes html ''debug=true''"
  with pattern_9_flag have "search_from (pattern vp9) 0 html \<noteq> None"
    unfolding vp9(2) by (rule match_anywhere)
  from pattern_finding_emitted [OF vp9(1) this, of techs] vp9(3,4)
  obtain f where f: "f \<in> set ?R" "name f = ''JavaScript Code Pattern''"
    "prefix ''Debug mode enabled in production'' (vulnerability f)" "severity f = Medium"
    by metis
  from debug_finding_emitted [OF h, of techs]
  obtain g where g: "g \<in> set ?R" "name g = ''Debug Configuration''" "severity g = Medium"
    by (metis VulnerableTechnology.select_convs(1,4))
  from f g show "\<exists>f \<in> set ?R. \<exists>g \<in> set ?R.
         name f = ''JavaScript Code Pattern''
       \<and> prefix ''Debug mode enabled in production'' (vulnerability f) \<and> severity f = Medium
       \<and> name g = ''Debug Configuration'' \<and> severity g = Medium"
    by blast
  from f(2) g(2) have "f \<noteq> g" by auto
  from two_members [OF f(1) g(1) this, of "\<lambda>v. severity v = Medium"] f(4) g(3)
  show "2 \<le> medium (normalizeVulnerabilities ?R)"
    unfolding normalizeVulnerabilities_counts by simp
qed

theorem C10_double_findings_witness:
  "js_includes ''console.log(1); debug=true'' ''console.log(''
   \<and> js_includes ''console.log(1); debug=true'' ''debug=true''
   \<and> 2 \<le> low (normalizeVulnerabilities
              (detectVulnerableTechnologies [] ''console.log(1); debug=true''))
   \<and> 2 \<le> medium (normalizeVulnerabilities
              (detectVulnerableTechnologies [] ''console.log(1); debug=true''))"
  using C10_double_findings [of "''console.log(1); debug=true''" "[]"]
    console_and_debug_includes
  by blast

text \<open>
  Claim C10 as stated fails: the HTML \<open>console.log\<close> contains the substring but no opening
  parenthesis, the signature does not match, and the only finding is \<open>Console Logging\<close>.
\<close>

theorem C10_console_log_counterexample:
  "detectVulnerableTechnologies [] ''console.log'' =
   [\<lparr>name = ''Console Logging'', version = ''Present'',
      vulnerability = ''Console logging in production code'', severity = Low,
      lineNumbers = None, recommendation = None\<rparr>]"
  by code_simp

text \<open>
  Claim C3. The robots.txt gate should deny on a full-site \<open>Disallow: /\<close> in the wildcard
  section, allow when robots.txt is absent or unreachable, and allow when the wildcard
  section only disallows specific paths. The first two hold on the scenarios of the
  specification (and in general by \<open>robots_fail_open\<close> and \<open>robots_wildcard_disallow\<close>).
  The third does not: the test for a general disallow is the substring
  test \<open>lowerText.includes('disallow: /')\<close>, which every path-specific directive passes, so
  the body \<open>User-agent: *\<close>, \<open>Disallow: /admin\<close> is denied.
\<close>

theorem C3_path_specific_disallow_denied:
  "validateRobotsTxt (Response 200 wildcard_admin) = False
   \<and> validateRobotsTxt (Response 200 wildcard_full) = False
   \<and> validateRobotsTxt (Response 404 []) = True
   \<and> validateRobotsTxt Threw = True"
  by code_simp

text \<open>
  Claim C6. For every header map, HSTS is valid iff the \<open>strict-transport-security\<close>
  value contains \<open>max-age=\<close> with a parsed integer of at least 31536000, where the
  parsed integer is the run of digits after the first \<open>max-age=\<close> that is followed by a
  digit. A value \<open>max-age=31536000\<close> (alone or followed by something that is not a
  digit) is valid and \<open>max-age=31535999\<close> is not; a missing header and a value without
  \<open>max-age=\<close> are invalid.
\<close>

theorem C6_hsts_validity:
  "(hsts (analyzeSecurityHeaders hs) \<longleftrightarrow>
      (\<exists>v ds. hs ''strict-transport-security'' = Some v \<and> first_max_age v ds
         \<and> 31536000 \<le> decimal ds))
   \<and> (post = [] \<or> \<not> is_digit (hd post) \<longrightarrow>
        hsts (analyzeSecurityHeaders
                [''strict-transport-security'' \<mapsto> ''max-age=31536000'' @ post])
      \<and> \<not> hsts (analyzeSecurityHeaders
                [''strict-transport-security'' \<mapsto> ''max-age=31535999'' @ post]))
   \<and> (hs ''strict-transport-security'' = None
        \<or> (\<exists>v. hs ''strict-transport-security'' = Some v \<and> \<not> js_includes v ''max-age='')
      \<longrightarrow> \<not> hsts (analyzeSecurityHeaders hs))"
proof (intro conjI impI)
  show "hsts (analyzeSecurityHeaders hs) \<longleftrightarrow>
      (\<exists>v ds. hs ''strict-transport-security'' = Some v \<and> first_max_age v ds
         \<and> 31536000 \<le> decimal ds)"
    unfolding hsts_field using hsts_value_valid
    by (cases "hs ''strict-transport-security''") auto
next
  assume po: "post = [] \<or> \<not> is_digit (hd post)"
  have a: "first_max_age (''max-age=31536000'' @ post) ''31536000''"
    using first_max_age_head [OF _ digits_year(1) po] by simp
  show "hsts (analyzeSecurityHeaders
                [''strict-transport-security'' \<mapsto> ''max-age=31536000'' @ post])"
    unfolding hsts_field using hsts_value_valid [of "''max-age=31536000'' @ post"] a decimal_year(1)
    by auto
next
  assume po: "post = [] \<or> \<not> is_digit (hd post)"
  have b: "first_max_age (''max-age=31535999'' @ post) ''31535999''"
    using first_max_age_head [OF _ digits_year(2) po] by simp
  have "\<not> (\<exists>ds. first_max_age (''max-age=31535999'' @ post) ds \<and> 31536000 \<le> decimal ds)"
    using first_max_age_unique [OF b] decimal_year(2) by fastforce
  then show "\<not> hsts (analyzeSecurityHeaders
                [''strict-transport-security'' \<mapsto> ''max-age=31535999'' @ post])"
    unfolding hsts_field using hsts_value_valid [of "''max-age=31535999'' @ post"]
    by auto
next
  assume "hs ''strict-transport-security'' = None
        \<or> (\<exists>v. hs ''strict-transport-security'' = Some v \<and> \<not> js_includes v ''max-age='')"
  then show "\<not> hsts (analyzeSecurityHeaders hs)"
    unfolding hsts_field by auto
qed

theorem C6_hsts_validity_witness:
  "hsts (analyzeSecurityHeaders
           [''strict-transport-security'' \<mapsto> ''max-age=31536000; includeSubDomains''])
   \<and> \<not> hsts (analyzeSecurityHeaders
           [''strict-transport-security'' \<mapsto> ''max-age=31535999; includeSubDomains''])
   \<and> \<not> hsts (analyzeSecurityHeaders Map.empty)
   \<and> first_max_age ''max-age=63072000'' ''63072000''
   \<and> hsts (analyzeSecurityHeaders [''strict-transport-security'' \<mapsto> ''max-age=63072000''])"
proof -
  have p: "''; includeSubDomains'' = [] \<or> \<not> is_digit (hd ''; includeSubDomains'')"
    by (simp add: is_digit_def)
  have f: "first_max_age ''max-age=63072000'' ''63072000''"
    using first_max_age_head [of "''63072000''" "[]"] by (simp add: is_digit_def)
  have d: "31536000 \<le> decimal ''63072000''"
    by (simp add: decimal_def digit_value_def)
  from C6_hsts_validity [of Map.empty "''; includeSubDomains''"] p
  have 1: "hsts (analyzeSecurityHeaders
           [''strict-transport-security'' \<mapsto> ''max-age=31536000; includeSubDomains''])
   \<and> \<not> hsts (analyzeSecurityHeaders
           [''strict-transport-security'' \<mapsto> ''max-age=31535999; includeSubDomains''])
   \<and> \<not> hsts (analyzeSecurityHeaders Map.empty)"
    by simp
  from f d have e: "\<exists>v ds. [''strict-transport-security'' \<mapsto> ''max-age=63072000'']
        ''strict-transport-security'' = Some v \<and> first_max_age v ds \<and> 31536000 \<le> decimal ds"
    by auto
  from C6_hsts_validity [of "[''strict-transport-security'' \<mapsto> ''max-age=63072000'']" "[]"] e
  have 2: "hsts (analyzeSecurityHeaders [''strict-transport-security'' \<mapsto> ''max-age=63072000''])"
    by blast
  from 1 2 f show ?thesis by blast
qed

end
